theory Spec2Isabelle
  imports Main
begin

section \<open>pymargo.core: values, exceptions and the \<open>_pymargo\<close> boundary\<close>

text \<open>
  \<open>pymargo/core.py\<close> is a thin Python layer over the compiled extension module
  \<open>_pymargo\<close>. Every method of \<open>Address\<close>, \<open>Engine\<close> and \<open>Provider\<close> reads some
  attributes of \<open>self\<close>, calls at most a few functions of \<open>_pymargo\<close> and sometimes
  assigns an attribute. The embedding keeps exactly that:
  \<^item> Python objects are records of their attributes;
  \<^item> a raised exception is the \<open>Inl\<close> of a sum, a returned value the \<open>Inr\<close>;
  \<^item> the extension module is a parameter \<open>pm\<close>: a function from a call and the
    transport's state to the call's outcome and the new state;
  \<^item> every call that crosses the boundary is appended to a trace, so that
    "this method calls \<open>addr_free\<close>" is a statement about the trace.
\<close>

datatype mode = client | server

datatype level = trace | debug | info | warning | error | critical

text \<open>
  Values that cross the boundary. \<open>PyCapsule\<close> is an opaque object made by the
  extension (a margo instance id, an \<open>hg_addr_t\<close>, a bulk handle, a \<open>Handle\<close>).
\<close>

datatype pyval = PyNone | PyBool bool | PyInt int | PyStr string | PyCapsule nat

datatype exn =
    RuntimeError string
  | AttributeError string
  | TypeError string
  | MargoException string

text \<open>
  An \<open>Engine\<close> object: its attributes \<open>_finalized\<close>, \<open>_mid\<close> and \<open>_logger\<close>.
  \<open>__init__\<close> assigns \<open>_finalized\<close> first and the other two only after
  \<open>_pymargo.init\<close> has returned, so \<open>_mid\<close> may be absent (\<open>None\<close> here; reading it
  then raises \<open>AttributeError\<close>) and \<open>e_logger\<close> tells whether \<open>_logger\<close> has been
  assigned (its value is the \<open>EngineLogger\<close> that refers back to this engine).
\<close>

record engine =
  e_finalized :: bool
  e_mid :: "pyval option"
  e_logger :: bool

text \<open>
  One constructor for each function of \<open>_pymargo\<close> that \<open>core.py\<close> calls, with the
  arguments in the order of the call. \<open>'o\<close> is the type of the Python objects that
  are only passed through (handler targets, callables, buffers, loggers).
\<close>

datatype 'o call =
    PM_init string mode bool int string
  | PM_finalize pyval
  | PM_wait_for_finalize pyval
  | PM_is_listening pyval
  | PM_push_prefinalize_callback pyval 'o
  | PM_push_finalize_callback pyval 'o
  | PM_enable_remote_shutdown pyval
  | PM_register_on_client pyval string int
  | PM_register pyval string int 'o string
  | PM_registered pyval string
  | PM_registered_provider pyval string int
  | PM_deregister pyval pyval
  | PM_disable_response pyval pyval bool
  | PM_disabled_response pyval pyval
  | PM_lookup pyval string
  | PM_addr_self pyval
  | PM_create pyval pyval pyval
  | PM_bulk_create pyval 'o pyval
  | PM_bulk_transfer pyval pyval pyval pyval int pyval int int
  | PM_addr_set_remove pyval pyval
  | PM_addr_free pyval pyval
  | PM_addr2str pyval pyval
  | PM_addr_cmp pyval pyval pyval
  | PM_addr_dup pyval pyval
  | PM_shutdown_remote_instance pyval pyval
  | PM_Handle_get_mid pyval
  | PM_Handle_get_hg_addr pyval
  | PM_log level string pyval
  | PM_set_logger engine 'o
  | PM_set_log_level pyval level

type_synonym ('o, 's) pymargo = "'o call \<Rightarrow> 's \<Rightarrow> (exn + pyval) \<times> 's"

record ('o, 's) world =
  w_trace :: "'o call list"
  w_state :: 's

definition invoke ::
  "('o, 's) pymargo \<Rightarrow> 'o call \<Rightarrow> ('o, 's) world \<Rightarrow> (exn + pyval) \<times> ('o, 's) world" where
  "invoke pm c w =
     (case pm c (w_state w) of
        (r, s') \<Rightarrow> (r, \<lparr>w_trace = w_trace w @ [c], w_state = s'\<rparr>))"

text \<open>A call made as a statement: the exception propagates, the value is dropped.\<close>

definition stmt :: "(exn + pyval) \<times> 'w \<Rightarrow> (exn + pyval) \<times> 'w" where
  "stmt rw = (case rw of (Inl x, w') \<Rightarrow> (Inl x, w') | (Inr v, w') \<Rightarrow> (Inr PyNone, w'))"


section \<open>class Address\<close>

record address =
  a_mid :: pyval
  a_hg_addr :: pyval
  a_need_del :: bool

text \<open>\<open>Address.__init__(self, mid, hg_addr, need_del=True)\<close>\<close>

definition Address_init :: "pyval \<Rightarrow> pyval \<Rightarrow> bool \<Rightarrow> address" where
  "Address_init mid hg_addr need_del =
     \<lparr>a_mid = mid, a_hg_addr = hg_addr, a_need_del = need_del\<rparr>"

text \<open>\<open>Address.__del__\<close>\<close>

definition Address_del ::
  "('o, 's) pymargo \<Rightarrow> address \<Rightarrow> ('o, 's) world \<Rightarrow> (exn + pyval) \<times> ('o, 's) world" where
  "Address_del pm self w =
     (if a_need_del self
      then stmt (invoke pm (PM_addr_free (a_mid self) (a_hg_addr self)) w)
      else (Inr PyNone, w))"

text \<open>\<open>Address.__str__\<close>\<close>

definition Address_str ::
  "('o, 's) pymargo \<Rightarrow> address \<Rightarrow> ('o, 's) world \<Rightarrow> (exn + pyval) \<times> ('o, 's) world" where
  "Address_str pm self w = invoke pm (PM_addr2str (a_mid self) (a_hg_addr self)) w"

text \<open>\<open>Address.__eq__(self, other)\<close>\<close>

definition Address_eq ::
  "('o, 's) pymargo \<Rightarrow> address \<Rightarrow> address \<Rightarrow> ('o, 's) world
     \<Rightarrow> (exn + pyval) \<times> ('o, 's) world" where
  "Address_eq pm self other w =
     invoke pm (PM_addr_cmp (a_mid self) (a_hg_addr self) (a_hg_addr other)) w"

text \<open>
  \<open>Address.copy\<close>: the new \<open>Address\<close> is built with two arguments, so \<open>need_del\<close>
  takes its default \<open>True\<close>.
\<close>

definition Address_copy ::
  "('o, 's) pymargo \<Rightarrow> address \<Rightarrow> ('o, 's) world \<Rightarrow> (exn + address) \<times> ('o, 's) world" where
  "Address_copy pm self w =
     (case invoke pm (PM_addr_dup (a_mid self) (a_hg_addr self)) w of
        (Inl x, w') \<Rightarrow> (Inl x, w')
      | (Inr h, w') \<Rightarrow> (Inr (Address_init (a_mid self) h True), w'))"

text \<open>\<open>Address.shutdown\<close>\<close>

definition Address_shutdown ::
  "('o, 's) pymargo \<Rightarrow> address \<Rightarrow> ('o, 's) world \<Rightarrow> (exn + pyval) \<times> ('o, 's) world" where
  "Address_shutdown pm self w =
     stmt (invoke pm (PM_shutdown_remote_instance (a_mid self) (a_hg_addr self)) w)"

text \<open>\<open>Address.get_internal_hg_addr\<close> and the property \<open>Address.hg_addr\<close>\<close>

definition Address_get_internal_hg_addr :: "address \<Rightarrow> pyval" where
  "Address_get_internal_hg_addr self = a_hg_addr self"

definition Address_hg_addr :: "address \<Rightarrow> pyval" where
  "Address_hg_addr self = a_hg_addr self"

text \<open>
  \<open>__Handler_get_Address(h)\<close>, installed as \<open>Handle.get_addr\<close>. The expression
  \<open>Address(mid, addr, need_del=False).copy()\<close> builds a temporary \<open>Address\<close>; nothing
  else refers to it, so it is destroyed as soon as \<open>copy\<close> has returned or raised,
  and its \<open>__del__\<close> runs then (an exception raised inside \<open>__del__\<close> is not
  propagated by Python).
\<close>

definition Handler_get_Address ::
  "('o, 's) pymargo \<Rightarrow> pyval \<Rightarrow> ('o, 's) world \<Rightarrow> (exn + address) \<times> ('o, 's) world" where
  "Handler_get_Address pm h w =
     (case invoke pm (PM_Handle_get_mid h) w of
        (Inl x, w1) \<Rightarrow> (Inl x, w1)
      | (Inr mid, w1) \<Rightarrow>
          (case invoke pm (PM_Handle_get_hg_addr h) w1 of
             (Inl x, w2) \<Rightarrow> (Inl x, w2)
           | (Inr addr, w2) \<Rightarrow>
               (let tmp = Address_init mid addr False in
                case Address_copy pm tmp w2 of
                  (r, w3) \<Rightarrow> (r, snd (Address_del pm tmp w3)))))"


section \<open>class Engine\<close>

text \<open>
  The \<open>options\<close> argument of the constructor: a \<open>dict\<close>, which \<open>__init__\<close> serialises
  with \<open>json.dumps\<close>, or anything else (a string), which it passes on as it is.
  \<open>json.dumps\<close> belongs to the standard library and is a parameter of the model.
\<close>

datatype 'd options = OptionsDict 'd | OptionsStr string

text \<open>
  Modelled from the spec: the class \<open>Bulk\<close> of \<open>pymargo/bulk.py\<close>, which
  \<open>create_bulk\<close> instantiates as \<open>Bulk(self, blk)\<close> and whose attribute \<open>_hg_bulk\<close>
  \<open>transfer\<close> reads. The spec gives a bulk region its owning engine and its
  transport-level region handle.
\<close>

record bulk =
  b_engine :: engine
  b_hg_bulk :: pyval

definition attr_mid :: "engine \<Rightarrow> exn + pyval" where
  "attr_mid self =
     (case e_mid self of None \<Rightarrow> Inl (AttributeError ''_mid'') | Some m \<Rightarrow> Inr m)"

text \<open>\<open>Engine.__init__(self, addr, mode, use_progress_thread, num_rpc_threads, options)\<close>.
  The second component of the result is the object as the constructor leaves it, also
  when the constructor raises (the caller then gets no reference to it, and the
  garbage collector runs \<open>__del__\<close> on it).\<close>

definition Engine_init ::
  "('o, 's) pymargo \<Rightarrow> ('d \<Rightarrow> exn + string) \<Rightarrow> string \<Rightarrow> mode \<Rightarrow> bool \<Rightarrow> int \<Rightarrow> 'd options
     \<Rightarrow> ('o, 's) world \<Rightarrow> (exn + pyval) \<times> engine \<times> ('o, 's) world" where
  "Engine_init pm json_dumps addr md use_progress_thread num_rpc_threads opts w =
     (let self = \<lparr>e_finalized = True, e_mid = None, e_logger = False\<rparr> in
      case (case opts of OptionsDict d \<Rightarrow> json_dumps d | OptionsStr s \<Rightarrow> Inr s) of
        Inl x \<Rightarrow> (Inl x, self, w)
      | Inr opt \<Rightarrow>
          (case invoke pm (PM_init addr md use_progress_thread num_rpc_threads opt) w of
             (Inl x, w') \<Rightarrow> (Inl x, self, w')
           | (Inr m, w') \<Rightarrow>
               (Inr PyNone,
                self\<lparr>e_mid := Some m, e_finalized := False, e_logger := True\<rparr>, w')))"

text \<open>\<open>Engine.finalize\<close>\<close>

definition Engine_finalize ::
  "('o, 's) pymargo \<Rightarrow> engine \<Rightarrow> ('o, 's) world \<Rightarrow> (exn + pyval) \<times> engine \<times> ('o, 's) world" where
  "Engine_finalize pm self w =
     (case attr_mid self of
        Inl x \<Rightarrow> (Inl x, self, w)
      | Inr m \<Rightarrow>
          (case invoke pm (PM_finalize m) w of
             (Inl x, w') \<Rightarrow> (Inl x, self, w')
           | (Inr v, w') \<Rightarrow> (Inr PyNone, self\<lparr>e_finalized := True\<rparr>, w')))"

text \<open>\<open>Engine.wait_for_finalize\<close>\<close>

definition Engine_wait_for_finalize ::
  "('o, 's) pymargo \<Rightarrow> engine \<Rightarrow> ('o, 's) world \<Rightarrow> (exn + pyval) \<times> engine \<times> ('o, 's) world" where
  "Engine_wait_for_finalize pm self w =
     (case attr_mid self of
        Inl x \<Rightarrow> (Inl x, self, w)
      | Inr m \<Rightarrow>
          (case invoke pm (PM_wait_for_finalize m) w of
             (Inl x, w') \<Rightarrow> (Inl x, self, w')
           | (Inr v, w') \<Rightarrow> (Inr PyNone, self\<lparr>e_finalized := True\<rparr>, w')))"

text \<open>\<open>Engine.__del__\<close>\<close>

definition Engine_del ::
  "('o, 's) pymargo \<Rightarrow> engine \<Rightarrow> ('o, 's) world \<Rightarrow> (exn + pyval) \<times> engine \<times> ('o, 's) world" where
  "Engine_del pm self w =
     (if \<not> e_finalized self then Engine_finalize pm self w else (Inr PyNone, self, w))"

text \<open>\<open>Engine.__enter__\<close> and \<open>Engine.__exit__\<close>\<close>

definition Engine_enter :: "engine \<Rightarrow> engine" where
  "Engine_enter self = self"

definition Engine_exit ::
  "('o, 's) pymargo \<Rightarrow> engine \<Rightarrow> ('o, 's) world \<Rightarrow> (exn + pyval) \<times> engine \<times> ('o, 's) world" where
  "Engine_exit pm self w =
     (if \<not> e_finalized self then Engine_finalize pm self w else (Inr PyNone, self, w))"

text \<open>
  The remaining methods assign no attribute. Each reads \<open>self._mid\<close> and makes one
  call; \<open>with_mid\<close> is that attribute read.
\<close>

definition with_mid ::
  "engine \<Rightarrow> ('o, 's) world \<Rightarrow> (pyval \<Rightarrow> (exn + 'a) \<times> ('o, 's) world)
     \<Rightarrow> (exn + 'a) \<times> ('o, 's) world" where
  "with_mid self w f = (case attr_mid self of Inl x \<Rightarrow> (Inl x, w) | Inr m \<Rightarrow> f m)"

text \<open>The property \<open>Engine.listening\<close>\<close>

definition Engine_listening ::
  "('o, 's) pymargo \<Rightarrow> engine \<Rightarrow> ('o, 's) world \<Rightarrow> (exn + pyval) \<times> ('o, 's) world" where
  "Engine_listening pm self w = with_mid self w (\<lambda>m. invoke pm (PM_is_listening m) w)"

text \<open>\<open>Engine.on_prefinalize\<close>, \<open>Engine.on_finalize\<close>, \<open>Engine.enable_remote_shutdown\<close>\<close>

definition Engine_on_prefinalize ::
  "('o, 's) pymargo \<Rightarrow> engine \<Rightarrow> 'o \<Rightarrow> ('o, 's) world \<Rightarrow> (exn + pyval) \<times> ('o, 's) world" where
  "Engine_on_prefinalize pm self callable_obj w =
     with_mid self w (\<lambda>m. stmt (invoke pm (PM_push_prefinalize_callback m callable_obj) w))"

definition Engine_on_finalize ::
  "('o, 's) pymargo \<Rightarrow> engine \<Rightarrow> 'o \<Rightarrow> ('o, 's) world \<Rightarrow> (exn + pyval) \<times> ('o, 's) world" where
  "Engine_on_finalize pm self callable_obj w =
     with_mid self w (\<lambda>m. stmt (invoke pm (PM_push_finalize_callback m callable_obj) w))"

definition Engine_enable_remote_shutdown ::
  "('o, 's) pymargo \<Rightarrow> engine \<Rightarrow> ('o, 's) world \<Rightarrow> (exn + pyval) \<times> ('o, 's) world" where
  "Engine_enable_remote_shutdown pm self w =
     with_mid self w (\<lambda>m. stmt (invoke pm (PM_enable_remote_shutdown m) w))"

text \<open>\<open>Engine.register(self, rpc_name, obj=None, method_name=None, provider_id=0)\<close>\<close>

definition Engine_register ::
  "('o, 's) pymargo \<Rightarrow> engine \<Rightarrow> string \<Rightarrow> 'o option \<Rightarrow> string option \<Rightarrow> int
     \<Rightarrow> ('o, 's) world \<Rightarrow> (exn + pyval) \<times> ('o, 's) world" where
  "Engine_register pm self rpc_name obj method_name provider_id w =
     (if obj = None \<and> method_name = None
      then with_mid self w (\<lambda>m. invoke pm (PM_register_on_client m rpc_name provider_id) w)
      else if obj \<noteq> None \<and> method_name \<noteq> None
      then with_mid self w
             (\<lambda>m. invoke pm (PM_register m rpc_name provider_id (the obj) (the method_name)) w)
      else (Inl (RuntimeError ''Both method name and object instance should be provided''), w))"

text \<open>\<open>Engine.registered(self, rpc_name, provider_id=None)\<close>\<close>

definition Engine_registered ::
  "('o, 's) pymargo \<Rightarrow> engine \<Rightarrow> string \<Rightarrow> int option
     \<Rightarrow> ('o, 's) world \<Rightarrow> (exn + pyval) \<times> ('o, 's) world" where
  "Engine_registered pm self rpc_name provider_id w =
     (case provider_id of
        None \<Rightarrow> with_mid self w (\<lambda>m. invoke pm (PM_registered m rpc_name) w)
      | Some p \<Rightarrow> with_mid self w (\<lambda>m. invoke pm (PM_registered_provider m rpc_name p) w))"

text \<open>\<open>Engine.deregister\<close>, \<open>Engine.disable_response\<close>, \<open>Engine.disabled_response\<close>\<close>

definition Engine_deregister ::
  "('o, 's) pymargo \<Rightarrow> engine \<Rightarrow> pyval \<Rightarrow> ('o, 's) world \<Rightarrow> (exn + pyval) \<times> ('o, 's) world" where
  "Engine_deregister pm self rpc_id w =
     with_mid self w (\<lambda>m. stmt (invoke pm (PM_deregister m rpc_id) w))"

definition Engine_disable_response ::
  "('o, 's) pymargo \<Rightarrow> engine \<Rightarrow> pyval \<Rightarrow> bool \<Rightarrow> ('o, 's) world
     \<Rightarrow> (exn + pyval) \<times> ('o, 's) world" where
  "Engine_disable_response pm self rpc_id disable w =
     with_mid self w (\<lambda>m. stmt (invoke pm (PM_disable_response m rpc_id disable) w))"

definition Engine_disabled_response ::
  "('o, 's) pymargo \<Rightarrow> engine \<Rightarrow> pyval \<Rightarrow> ('o, 's) world \<Rightarrow> (exn + pyval) \<times> ('o, 's) world" where
  "Engine_disabled_response pm self rpc_id w =
     with_mid self w (\<lambda>m. invoke pm (PM_disabled_response m rpc_id) w)"

text \<open>\<open>Engine.lookup\<close>, \<open>Engine.addr\<close> and the property \<open>Engine.address\<close>. Both build
  \<open>Address(self._mid, hg_addr)\<close>, with \<open>need_del\<close> at its default \<open>True\<close>; the second
  read of \<open>self._mid\<close> gives the value the first one gave.\<close>

definition Engine_lookup ::
  "('o, 's) pymargo \<Rightarrow> engine \<Rightarrow> string \<Rightarrow> ('o, 's) world \<Rightarrow> (exn + address) \<times> ('o, 's) world" where
  "Engine_lookup pm self straddr w =
     with_mid self w
       (\<lambda>m. case invoke pm (PM_lookup m straddr) w of
              (Inl x, w') \<Rightarrow> (Inl x, w')
            | (Inr hg_addr, w') \<Rightarrow> (Inr (Address_init m hg_addr True), w'))"

definition Engine_addr ::
  "('o, 's) pymargo \<Rightarrow> engine \<Rightarrow> ('o, 's) world \<Rightarrow> (exn + address) \<times> ('o, 's) world" where
  "Engine_addr pm self w =
     with_mid self w
       (\<lambda>m. case invoke pm (PM_addr_self m) w of
              (Inl x, w') \<Rightarrow> (Inl x, w')
            | (Inr hg_addr, w') \<Rightarrow> (Inr (Address_init m hg_addr True), w'))"

definition Engine_address ::
  "('o, 's) pymargo \<Rightarrow> engine \<Rightarrow> ('o, 's) world \<Rightarrow> (exn + address) \<times> ('o, 's) world" where
  "Engine_address pm self w = Engine_addr pm self w"

text \<open>\<open>Engine.create_handle\<close>, \<open>Engine.create_bulk\<close>, \<open>Engine.transfer\<close>\<close>

definition Engine_create_handle ::
  "('o, 's) pymargo \<Rightarrow> engine \<Rightarrow> address \<Rightarrow> pyval \<Rightarrow> ('o, 's) world
     \<Rightarrow> (exn + pyval) \<times> ('o, 's) world" where
  "Engine_create_handle pm self addr rpc_id w =
     with_mid self w (\<lambda>m. invoke pm (PM_create m (a_hg_addr addr) rpc_id) w)"

definition Engine_create_bulk ::
  "('o, 's) pymargo \<Rightarrow> engine \<Rightarrow> 'o \<Rightarrow> pyval \<Rightarrow> ('o, 's) world
     \<Rightarrow> (exn + bulk) \<times> ('o, 's) world" where
  "Engine_create_bulk pm self array md w =
     with_mid self w
       (\<lambda>m. case invoke pm (PM_bulk_create m array md) w of
              (Inl x, w') \<Rightarrow> (Inl x, w')
            | (Inr blk, w') \<Rightarrow> (Inr \<lparr>b_engine = self, b_hg_bulk = blk\<rparr>, w'))"

definition Engine_transfer ::
  "('o, 's) pymargo \<Rightarrow> engine \<Rightarrow> pyval \<Rightarrow> address \<Rightarrow> bulk \<Rightarrow> int \<Rightarrow> bulk \<Rightarrow> int \<Rightarrow> int
     \<Rightarrow> ('o, 's) world \<Rightarrow> (exn + pyval) \<times> ('o, 's) world" where
  "Engine_transfer pm self op origin_addr origin_handle origin_offset
       local_handle local_offset sz w =
     with_mid self w
       (\<lambda>m. stmt (invoke pm
              (PM_bulk_transfer m op (a_hg_addr origin_addr) (b_hg_bulk origin_handle)
                 origin_offset (b_hg_bulk local_handle) local_offset sz) w))"

text \<open>\<open>Engine.get_internal_mid\<close>, the properties \<open>Engine.mid\<close> and \<open>Engine.logger\<close>,
  \<open>Engine.set_remove\<close>\<close>

definition Engine_get_internal_mid :: "engine \<Rightarrow> exn + pyval" where
  "Engine_get_internal_mid self = attr_mid self"

definition Engine_mid :: "engine \<Rightarrow> exn + pyval" where
  "Engine_mid self = attr_mid self"

definition Engine_logger :: "engine \<Rightarrow> exn + engine" where
  "Engine_logger self =
     (if e_logger self then Inr self else Inl (AttributeError ''_logger''))"

definition Engine_set_remove ::
  "('o, 's) pymargo \<Rightarrow> engine \<Rightarrow> address \<Rightarrow> ('o, 's) world \<Rightarrow> (exn + pyval) \<times> ('o, 's) world" where
  "Engine_set_remove pm self addr w =
     with_mid self w (\<lambda>m. stmt (invoke pm (PM_addr_set_remove m (Address_hg_addr addr)) w))"

text \<open>
  \<open>Engine.EngineLogger\<close>: an object whose only attribute is the engine. Its six
  severity methods differ in the \<open>_pymargo\<close> function they call, which is the \<open>level\<close>
  here; each reads the property \<open>mid\<close> of the engine. \<open>set_logger\<close> passes the engine
  itself, \<open>set_log_level\<close> its \<open>_mid\<close>.
\<close>

definition EngineLogger_log ::
  "('o, 's) pymargo \<Rightarrow> engine \<Rightarrow> level \<Rightarrow> string \<Rightarrow> ('o, 's) world
     \<Rightarrow> (exn + pyval) \<times> ('o, 's) world" where
  "EngineLogger_log pm eng lvl msg w =
     (case Engine_mid eng of
        Inl x \<Rightarrow> (Inl x, w)
      | Inr m \<Rightarrow> stmt (invoke pm (PM_log lvl msg m) w))"

definition EngineLogger_set_logger ::
  "('o, 's) pymargo \<Rightarrow> engine \<Rightarrow> 'o \<Rightarrow> ('o, 's) world \<Rightarrow> (exn + pyval) \<times> ('o, 's) world" where
  "EngineLogger_set_logger pm eng logger w = stmt (invoke pm (PM_set_logger eng logger) w)"

definition EngineLogger_set_log_level ::
  "('o, 's) pymargo \<Rightarrow> engine \<Rightarrow> level \<Rightarrow> ('o, 's) world \<Rightarrow> (exn + pyval) \<times> ('o, 's) world" where
  "EngineLogger_set_log_level pm eng log_level w =
     with_mid eng w (\<lambda>m. stmt (invoke pm (PM_set_log_level m log_level) w))"


text \<open>
  The methods of \<open>Engine\<close> as one step function on the engine object: the
  operation with its arguments, the object before, and the result with the object
  after. \<open>__init__\<close> is not a step: it makes the object.
\<close>

datatype retval =
    RVal pyval
  | RAddress address
  | RBulk bulk
  | REngine engine
  | RLogger engine

datatype 'o engine_op =
    Op_del
  | Op_enter
  | Op_exit
  | Op_finalize
  | Op_wait_for_finalize
  | Op_listening
  | Op_on_prefinalize 'o
  | Op_on_finalize 'o
  | Op_enable_remote_shutdown
  | Op_register string "'o option" "string option" int
  | Op_registered string "int option"
  | Op_deregister pyval
  | Op_disable_response pyval bool
  | Op_disabled_response pyval
  | Op_lookup string
  | Op_addr
  | Op_address
  | Op_create_handle address pyval
  | Op_create_bulk 'o pyval
  | Op_transfer pyval address bulk int bulk int int
  | Op_get_internal_mid
  | Op_mid
  | Op_logger
  | Op_set_remove address

definition same_self ::
  "engine \<Rightarrow> ('a \<Rightarrow> retval) \<Rightarrow> (exn + 'a) \<times> 'w \<Rightarrow> (exn + retval) \<times> engine \<times> 'w" where
  "same_self self f rw =
     (case rw of (Inl x, w') \<Rightarrow> (Inl x, self, w') | (Inr v, w') \<Rightarrow> (Inr (f v), self, w'))"

definition new_self ::
  "(exn + pyval) \<times> engine \<times> 'w \<Rightarrow> (exn + retval) \<times> engine \<times> 'w" where
  "new_self r =
     (case r of (Inl x, e, w') \<Rightarrow> (Inl x, e, w') | (Inr v, e, w') \<Rightarrow> (Inr (RVal v), e, w'))"

fun Engine_step ::
  "('o, 's) pymargo \<Rightarrow> 'o engine_op \<Rightarrow> engine \<Rightarrow> ('o, 's) world
     \<Rightarrow> (exn + retval) \<times> engine \<times> ('o, 's) world" where
  "Engine_step pm Op_del self w = new_self (Engine_del pm self w)"
| "Engine_step pm Op_enter self w = (Inr (REngine (Engine_enter self)), self, w)"
| "Engine_step pm Op_exit self w = new_self (Engine_exit pm self w)"
| "Engine_step pm Op_finalize self w = new_self (Engine_finalize pm self w)"
| "Engine_step pm Op_wait_for_finalize self w = new_self (Engine_wait_for_finalize pm self w)"
| "Engine_step pm Op_listening self w = same_self self RVal (Engine_listening pm self w)"
| "Engine_step pm (Op_on_prefinalize f) self w =
     same_self self RVal (Engine_on_prefinalize pm self f w)"
| "Engine_step pm (Op_on_finalize f) self w =
     same_self self RVal (Engine_on_finalize pm self f w)"
| "Engine_step pm Op_enable_remote_shutdown self w =
     same_self self RVal (Engine_enable_remote_shutdown pm self w)"
| "Engine_step pm (Op_register rpc_name obj method_name provider_id) self w =
     same_self self RVal (Engine_register pm self rpc_name obj method_name provider_id w)"
| "Engine_step pm (Op_registered rpc_name provider_id) self w =
     same_self self RVal (Engine_registered pm self rpc_name provider_id w)"
| "Engine_step pm (Op_deregister rpc_id) self w =
     same_self self RVal (Engine_deregister pm self rpc_id w)"
| "Engine_step pm (Op_disable_response rpc_id disable) self w =
     same_self self RVal (Engine_disable_response pm self rpc_id disable w)"
| "Engine_step pm (Op_disabled_response rpc_id) self w =
     same_self self RVal (Engine_disabled_response pm self rpc_id w)"
| "Engine_step pm (Op_lookup straddr) self w =
     same_self self RAddress (Engine_lookup pm self straddr w)"
| "Engine_step pm Op_addr self w = same_self self RAddress (Engine_addr pm self w)"
| "Engine_step pm Op_address self w = same_self self RAddress (Engine_address pm self w)"
| "Engine_step pm (Op_create_handle addr rpc_id) self w =
     same_self self RVal (Engine_create_handle pm self addr rpc_id w)"
| "Engine_step pm (Op_create_bulk array md) self w =
     same_self self RBulk (Engine_create_bulk pm self array md w)"
| "Engine_step pm (Op_transfer op oa oh oo lh lo sz) self w =
     same_self self RVal (Engine_transfer pm self op oa oh oo lh lo sz w)"
| "Engine_step pm Op_get_internal_mid self w =
     same_self self RVal (Engine_get_internal_mid self, w)"
| "Engine_step pm Op_mid self w = same_self self RVal (Engine_mid self, w)"
| "Engine_step pm Op_logger self w = same_self self RLogger (Engine_logger self, w)"
| "Engine_step pm (Op_set_remove addr) self w =
     same_self self RVal (Engine_set_remove pm self addr w)"


section \<open>class Provider\<close>

record provider =
  p_engine :: engine
  p_provider_id :: int

text \<open>
  The Python objects handed to the extension: a \<open>Provider\<close> (what
  \<open>Provider.register\<close> passes as \<open>self\<close>) or any other object, known by its identity.
\<close>

datatype pyobj = ObjProvider provider | ObjOther nat

text \<open>\<open>Provider.__init__(self, engine, provider_id)\<close>\<close>

definition Provider_init :: "engine \<Rightarrow> int \<Rightarrow> provider" where
  "Provider_init eng provider_id = \<lparr>p_engine = eng, p_provider_id = provider_id\<rparr>"

text \<open>\<open>Provider.register\<close> and \<open>Provider.registered\<close>. The second component of the
  result is the provider object after the call.\<close>

definition Provider_register ::
  "(pyobj, 's) pymargo \<Rightarrow> provider \<Rightarrow> string \<Rightarrow> string option \<Rightarrow> (pyobj, 's) world
     \<Rightarrow> (exn + pyval) \<times> provider \<times> (pyobj, 's) world" where
  "Provider_register pm self rpc_name method_name w =
     (case Engine_register pm (p_engine self) rpc_name (Some (ObjProvider self)) method_name
             (p_provider_id self) w of
        (r, w') \<Rightarrow> (r, self, w'))"

definition Provider_registered ::
  "(pyobj, 's) pymargo \<Rightarrow> provider \<Rightarrow> string \<Rightarrow> (pyobj, 's) world
     \<Rightarrow> (exn + pyval) \<times> provider \<times> (pyobj, 's) world" where
  "Provider_registered pm self rpc_name w =
     (case Engine_registered pm (p_engine self) rpc_name (Some (p_provider_id self)) w of
        (r, w') \<Rightarrow> (r, self, w'))"

text \<open>\<open>Provider.get_provider_id\<close>, \<open>Provider.provider_id\<close>, \<open>Provider.get_engine\<close>,
  \<open>Provider.engine\<close>\<close>

definition Provider_get_provider_id :: "provider \<Rightarrow> int" where
  "Provider_get_provider_id self = p_provider_id self"

definition Provider_provider_id :: "provider \<Rightarrow> int" where
  "Provider_provider_id self = p_provider_id self"

definition Provider_get_engine :: "provider \<Rightarrow> engine" where
  "Provider_get_engine self = p_engine self"

definition Provider_engine :: "provider \<Rightarrow> engine" where
  "Provider_engine self = p_engine self"


section \<open>Transports to run the code on\<close>

text \<open>
  A scripted transport, in the manner of a test double: its state is the list of
  outcomes that the next calls to \<open>_pymargo\<close> will have, in order (and \<open>None\<close> once the
  list is used up). It lets the methods run on any sequence of outcomes of the
  extension, failures included.
\<close>

definition scripted :: "('o, (exn + pyval) list) pymargo" where
  "scripted c s = (case s of [] \<Rightarrow> (Inr PyNone, []) | r # rs \<Rightarrow> (r, rs))"

definition script :: "(exn + pyval) list \<Rightarrow> ('o, (exn + pyval) list) world" where
  "script rs = \<lparr>w_trace = [], w_state = rs\<rparr>"

text \<open>The session that a call to \<open>_pymargo\<close> names, if it names one.\<close>

fun session_of :: "'o call \<Rightarrow> pyval option" where
  "session_of (PM_init addr md use_pt n_rpc opt) = None"
| "session_of (PM_finalize m) = Some m"
| "session_of (PM_wait_for_finalize m) = Some m"
| "session_of (PM_is_listening m) = Some m"
| "session_of (PM_push_prefinalize_callback m f) = Some m"
| "session_of (PM_push_finalize_callback m f) = Some m"
| "session_of (PM_enable_remote_shutdown m) = Some m"
| "session_of (PM_register_on_client m n p) = Some m"
| "session_of (PM_register m n p obj meth) = Some m"
| "session_of (PM_registered m n) = Some m"
| "session_of (PM_registered_provider m n p) = Some m"
| "session_of (PM_deregister m i) = Some m"
| "session_of (PM_disable_response m i b) = Some m"
| "session_of (PM_disabled_response m i) = Some m"
| "session_of (PM_lookup m a) = Some m"
| "session_of (PM_addr_self m) = Some m"
| "session_of (PM_create m a i) = Some m"
| "session_of (PM_bulk_create m arr md) = Some m"
| "session_of (PM_bulk_transfer m op a oh oo lh lo sz) = Some m"
| "session_of (PM_addr_set_remove m a) = Some m"
| "session_of (PM_addr_free m a) = Some m"
| "session_of (PM_addr2str m a) = Some m"
| "session_of (PM_addr_cmp m a b) = Some m"
| "session_of (PM_addr_dup m a) = Some m"
| "session_of (PM_shutdown_remote_instance m a) = Some m"
| "session_of (PM_Handle_get_mid h) = None"
| "session_of (PM_Handle_get_hg_addr h) = None"
| "session_of (PM_log lvl msg m) = Some m"
| "session_of (PM_set_logger eng lg) = e_mid eng"
| "session_of (PM_set_log_level m lvl) = Some m"


text \<open>
  Modelled from the spec: the transport behind \<open>_pymargo\<close>, whose implementation is
  compiled code outside the Python sources. The state holds what the spec's data
  model and collaborator contract name:
  \<^item> the live sessions, each with the address specification and mode it was
    initialised with (\<open>init\<close> creates a session and fails if the transport cannot bind
    the address; \<open>finalize\<close> releases it);
  \<^item> the live endpoint references, each standing for an endpoint descriptor
    (\<open>addrLookup\<close> and \<open>addrSelf\<close> make an owned reference, \<open>addrDup\<close> makes a new
    reference to the same endpoint, \<open>addrFree\<close> releases one reference, \<open>addrCompare\<close>
    is structural equality of the endpoints);
  \<^item> the RPC registry, a mapping from (session, name, provider id) to the RPC
    identifier and the handler, if any (provider id 0 is the unscoped namespace);
  \<^item> the inbound handles, each with its session and the borrowed reference to the
    sender's endpoint;
  \<^item> the descriptors that cannot be bound or resolved.
  A call that names a session which is not live fails (the spec's \<open>LifecycleError\<close>).
  Errors are \<open>MargoException\<close>s that carry the name the spec gives the failure.
  Calls whose effect the spec leaves to the transport (callbacks, bulk memory,
  logging, remote shutdown) change nothing here and return \<open>None\<close>.
\<close>

record 'o spec_state =
  t_next :: nat
  t_sessions :: "(nat \<times> string \<times> mode) list"
  t_endpoints :: "(nat \<times> string) list"
  t_registry :: "((nat \<times> string \<times> int) \<times> nat \<times> ('o \<times> string) option) list"
  t_inbound :: "(nat \<times> nat \<times> nat) list"
  t_unreachable :: "string list"

definition spec_init :: "string \<Rightarrow> mode \<Rightarrow> 'o spec_state \<Rightarrow> (exn + pyval) \<times> 'o spec_state" where
  "spec_init addr md s =
     (if addr \<in> set (t_unreachable s)
      then (Inl (MargoException ''InitializationError''), s)
      else (Inr (PyCapsule (t_next s)),
            s\<lparr>t_next := Suc (t_next s),
              t_sessions := (t_next s, addr, md) # t_sessions s\<rparr>))"

definition release_session :: "nat \<Rightarrow> 'o spec_state \<Rightarrow> (exn + pyval) \<times> 'o spec_state" where
  "release_session n s =
     (Inr PyNone, s\<lparr>t_sessions := filter (\<lambda>e. fst e \<noteq> n) (t_sessions s)\<rparr>)"

definition endpoint_of :: "'o spec_state \<Rightarrow> pyval \<Rightarrow> string option" where
  "endpoint_of s a = (case a of PyCapsule h \<Rightarrow> map_of (t_endpoints s) h | _ \<Rightarrow> None)"

definition new_reference :: "string \<Rightarrow> 'o spec_state \<Rightarrow> (exn + pyval) \<times> 'o spec_state" where
  "new_reference ep s =
     (Inr (PyCapsule (t_next s)),
      s\<lparr>t_next := Suc (t_next s), t_endpoints := (t_next s, ep) # t_endpoints s\<rparr>)"

definition spec_lookup :: "string \<Rightarrow> 'o spec_state \<Rightarrow> (exn + pyval) \<times> 'o spec_state" where
  "spec_lookup straddr s =
     (if straddr \<in> set (t_unreachable s)
      then (Inl (MargoException ''AddressResolutionError''), s)
      else new_reference straddr s)"

definition spec_addr_self :: "nat \<Rightarrow> 'o spec_state \<Rightarrow> (exn + pyval) \<times> 'o spec_state" where
  "spec_addr_self n s =
     (case map_of (t_sessions s) n of
        None \<Rightarrow> (Inl (MargoException ''LifecycleError''), s)
      | Some (addr, md) \<Rightarrow> new_reference addr s)"

definition spec_addr_dup :: "pyval \<Rightarrow> 'o spec_state \<Rightarrow> (exn + pyval) \<times> 'o spec_state" where
  "spec_addr_dup a s =
     (case endpoint_of s a of
        None \<Rightarrow> (Inl (MargoException ''invalid address''), s)
      | Some ep \<Rightarrow> new_reference ep s)"

definition spec_addr_free :: "pyval \<Rightarrow> 'o spec_state \<Rightarrow> (exn + pyval) \<times> 'o spec_state" where
  "spec_addr_free a s =
     (case endpoint_of s a of
        None \<Rightarrow> (Inl (MargoException ''invalid address''), s)
      | Some ep \<Rightarrow>
          (Inr PyNone, s\<lparr>t_endpoints := filter (\<lambda>e. PyCapsule (fst e) \<noteq> a) (t_endpoints s)\<rparr>))"

definition spec_addr_cmp ::
  "pyval \<Rightarrow> pyval \<Rightarrow> 'o spec_state \<Rightarrow> (exn + pyval) \<times> 'o spec_state" where
  "spec_addr_cmp a b s =
     (case endpoint_of s a of
        None \<Rightarrow> (Inl (MargoException ''invalid address''), s)
      | Some x \<Rightarrow>
          (case endpoint_of s b of
             None \<Rightarrow> (Inl (MargoException ''invalid address''), s)
           | Some y \<Rightarrow> (Inr (PyBool (x = y)), s)))"

definition spec_addr2str :: "pyval \<Rightarrow> 'o spec_state \<Rightarrow> (exn + pyval) \<times> 'o spec_state" where
  "spec_addr2str a s =
     (case endpoint_of s a of
        None \<Rightarrow> (Inl (MargoException ''invalid address''), s)
      | Some ep \<Rightarrow> (Inr (PyStr ep), s))"

text \<open>
  Registration: the identifier of an RPC is determined by its (name, provider id)
  within the session, so registering a pair that is registered already gives the
  identifier it has (and binds the new handler); a new pair gets a fresh one.
\<close>

definition spec_register ::
  "nat \<Rightarrow> string \<Rightarrow> int \<Rightarrow> ('o \<times> string) option \<Rightarrow> 'o spec_state
     \<Rightarrow> (exn + pyval) \<times> 'o spec_state" where
  "spec_register n name pid handler s =
     (case map_of (t_registry s) (n, name, pid) of
        Some (i, old) \<Rightarrow>
          (Inr (PyInt (int i)),
           s\<lparr>t_registry := ((n, name, pid), (i, handler)) # t_registry s\<rparr>)
      | None \<Rightarrow>
          (Inr (PyInt (int (t_next s))),
           s\<lparr>t_next := Suc (t_next s),
             t_registry := ((n, name, pid), (t_next s, handler)) # t_registry s\<rparr>))"

definition spec_registered ::
  "nat \<Rightarrow> string \<Rightarrow> int \<Rightarrow> 'o spec_state \<Rightarrow> (exn + pyval) \<times> 'o spec_state" where
  "spec_registered n name pid s =
     (case map_of (t_registry s) (n, name, pid) of
        None \<Rightarrow> (Inr PyNone, s)
      | Some (i, h) \<Rightarrow> (Inr (PyInt (int i)), s))"

definition spec_deregister :: "pyval \<Rightarrow> 'o spec_state \<Rightarrow> (exn + pyval) \<times> 'o spec_state" where
  "spec_deregister rpc_id s =
     (Inr PyNone,
      s\<lparr>t_registry := filter (\<lambda>e. PyInt (int (fst (snd e))) \<noteq> rpc_id) (t_registry s)\<rparr>)"

definition spec_is_listening :: "nat \<Rightarrow> 'o spec_state \<Rightarrow> (exn + pyval) \<times> 'o spec_state" where
  "spec_is_listening n s =
     (case map_of (t_sessions s) n of
        None \<Rightarrow> (Inl (MargoException ''LifecycleError''), s)
      | Some (addr, md) \<Rightarrow> (Inr (PyBool (md = server)), s))"

text \<open>The calls that name the live session \<open>n\<close>.\<close>

fun spec_call :: "nat \<Rightarrow> 'o call \<Rightarrow> 'o spec_state \<Rightarrow> (exn + pyval) \<times> 'o spec_state" where
  "spec_call n (PM_finalize m) s = release_session n s"
| "spec_call n (PM_wait_for_finalize m) s = release_session n s"
| "spec_call n (PM_is_listening m) s = spec_is_listening n s"
| "spec_call n (PM_register_on_client m name pid) s = spec_register n name pid None s"
| "spec_call n (PM_register m name pid obj meth) s =
     spec_register n name pid (Some (obj, meth)) s"
| "spec_call n (PM_registered m name) s = spec_registered n name 0 s"
| "spec_call n (PM_registered_provider m name pid) s = spec_registered n name pid s"
| "spec_call n (PM_deregister m rpc_id) s = spec_deregister rpc_id s"
| "spec_call n (PM_lookup m straddr) s = spec_lookup straddr s"
| "spec_call n (PM_addr_self m) s = spec_addr_self n s"
| "spec_call n (PM_addr_free m a) s = spec_addr_free a s"
| "spec_call n (PM_addr2str m a) s = spec_addr2str a s"
| "spec_call n (PM_addr_cmp m a b) s = spec_addr_cmp a b s"
| "spec_call n (PM_addr_dup m a) s = spec_addr_dup a s"
| "spec_call n c s = (Inr PyNone, s)"

text \<open>The calls that name no session.\<close>

fun spec_other :: "'o call \<Rightarrow> 'o spec_state \<Rightarrow> (exn + pyval) \<times> 'o spec_state" where
  "spec_other (PM_init addr md use_pt n_rpc opt) s = spec_init addr md s"
| "spec_other (PM_Handle_get_mid h) s =
     (case h of
        PyCapsule k \<Rightarrow>
          (case map_of (t_inbound s) k of
             None \<Rightarrow> (Inl (MargoException ''invalid handle''), s)
           | Some (n, a) \<Rightarrow> (Inr (PyCapsule n), s))
      | _ \<Rightarrow> (Inl (MargoException ''invalid handle''), s))"
| "spec_other (PM_Handle_get_hg_addr h) s =
     (case h of
        PyCapsule k \<Rightarrow>
          (case map_of (t_inbound s) k of
             None \<Rightarrow> (Inl (MargoException ''invalid handle''), s)
           | Some (n, a) \<Rightarrow> (Inr (PyCapsule a), s))
      | _ \<Rightarrow> (Inl (MargoException ''invalid handle''), s))"
| "spec_other c s = (Inr PyNone, s)"

definition spec_pymargo :: "('o, 'o spec_state) pymargo" where
  "spec_pymargo c s =
     (case session_of c of
        None \<Rightarrow> spec_other c s
      | Some m \<Rightarrow>
          (case m of
             PyCapsule n \<Rightarrow>
               (if map_of (t_sessions s) n = None
                then (Inl (MargoException ''LifecycleError''), s)
                else spec_call n c s)
           | _ \<Rightarrow> (Inl (MargoException ''LifecycleError''), s)))"

text \<open>A transport state with nothing in it, in which the descriptor \<open>''bad://''\<close>
  cannot be bound or resolved.\<close>

definition spec_start :: "'o spec_state" where
  "spec_start =
     \<lparr>t_next = 0, t_sessions = [], t_endpoints = [], t_registry = [], t_inbound = [],
      t_unreachable = [''bad://'']\<rparr>"

definition start :: "('o, 'o spec_state) world" where
  "start = \<lparr>w_trace = [], w_state = spec_start\<rparr>"

text \<open>
  The engine that the constructor makes for \<open>''tcp://a''\<close> on the empty transport,
  and the world it leaves (see \<open>Engine_init_start\<close> below).
\<close>

definition engine0 :: engine where
  "engine0 = \<lparr>e_finalized = False, e_mid = Some (PyCapsule 0), e_logger = True\<rparr>"

definition world0 :: "(pyobj, pyobj spec_state) world" where
  "world0 =
     \<lparr>w_trace = [PM_init ''tcp://a'' server False 0 ''''],
      w_state = \<lparr>t_next = 1, t_sessions = [(0, ''tcp://a'', server)], t_endpoints = [],
                 t_registry = [], t_inbound = [], t_unreachable = [''bad://'']\<rparr>\<rparr>"

text \<open>A \<open>json.dumps\<close> that accepts no dictionary (the type of dictionaries is \<open>unit\<close>).\<close>

definition no_dumps :: "unit \<Rightarrow> exn + string" where
  "no_dumps d = Inl (TypeError ''Object is not JSON serializable'')"

text \<open>A \<open>json.dumps\<close> on the same type that serialises the one dictionary there is, the
  empty one.\<close>

definition braces_dumps :: "unit \<Rightarrow> exn + string" where
  "braces_dumps d = Inr ''{}''"


text \<open>The same engine after \<open>finalize()\<close> has returned, and the world then (see
  \<open>Engine_finalize_world0\<close> below).\<close>

definition engine1 :: engine where
  "engine1 = \<lparr>e_finalized = True, e_mid = Some (PyCapsule 0), e_logger = True\<rparr>"

definition world1 :: "(pyobj, pyobj spec_state) world" where
  "world1 =
     \<lparr>w_trace = [PM_init ''tcp://a'' server False 0 [], PM_finalize (PyCapsule 0)],
      w_state = \<lparr>t_next = 1, t_sessions = [], t_endpoints = [],
                 t_registry = [], t_inbound = [], t_unreachable = [''bad://'']\<rparr>\<rparr>"

text \<open>A world in which session 0 is live and holds the inbound handle 5, whose
  sender is the endpoint \<open>''tcp://client''\<close>, borrowed under the reference 3.\<close>

definition world2 :: "(pyobj, pyobj spec_state) world" where
  "world2 =
     \<lparr>w_trace = [],
      w_state = \<lparr>t_next = 6, t_sessions = [(0, ''tcp://a'', server)],
                 t_endpoints = [(3, ''tcp://client'')], t_registry = [],
                 t_inbound = [(5, (0, 3))], t_unreachable = [''bad://'']\<rparr>\<rparr>"


section \<open>Properties\<close>

lemmas boundary_defs = invoke_def stmt_def with_mid_def attr_mid_def

lemmas engine_defs =
  Engine_finalize_def Engine_wait_for_finalize_def Engine_del_def Engine_exit_def
  Engine_enter_def Engine_listening_def Engine_on_prefinalize_def Engine_on_finalize_def
  Engine_enable_remote_shutdown_def Engine_register_def Engine_registered_def
  Engine_deregister_def Engine_disable_response_def Engine_disabled_response_def
  Engine_lookup_def Engine_addr_def Engine_address_def Engine_create_handle_def
  Engine_create_bulk_def Engine_transfer_def Engine_get_internal_mid_def Engine_mid_def
  Engine_logger_def Engine_set_remove_def same_self_def new_self_def

lemmas address_defs =
  Address_init_def Address_del_def Address_str_def Address_eq_def Address_copy_def
  Address_shutdown_def Handler_get_Address_def

lemmas spec_defs =
  spec_pymargo_def spec_init_def release_session_def endpoint_of_def new_reference_def
  spec_lookup_def spec_addr_self_def spec_addr_dup_def spec_addr_free_def spec_addr_cmp_def
  spec_addr2str_def spec_register_def spec_registered_def spec_deregister_def
  spec_is_listening_def spec_start_def start_def

lemmas fixture_defs =
  engine0_def world0_def engine1_def world1_def world2_def no_dumps_def braces_dumps_def
  scripted_def script_def

lemma map_of_filter_out: "map_of (filter (\<lambda>e. fst e \<noteq> k) xs) k = None"
  by (induction xs) auto

lemma map_of_filter_other:
  "k' \<noteq> k \<Longrightarrow> map_of (filter (\<lambda>e. fst e \<noteq> k) xs) k' = map_of xs k'"
  by (induction xs) auto

lemma Engine_finalize_world0:
  "Engine_finalize spec_pymargo engine0 world0 = (Inr PyNone, engine1, world1)"
  by (simp add: Engine_finalize_def boundary_defs spec_defs fixture_defs)

lemma Engine_init_start:
  "Engine_init spec_pymargo no_dumps ''tcp://a'' server False 0 (OptionsStr '''') start
     = (Inr PyNone, engine0, world0)"
  by (simp add: Engine_init_def boundary_defs spec_defs fixture_defs)


subsection \<open>Registration arguments\<close>

text \<open>
  Claim C1. \<open>Engine.register(rpc_name, obj, method_name, provider_id)\<close>: when exactly
  one of \<open>obj\<close> and \<open>method_name\<close> is \<open>None\<close>, the call raises and registers nothing:
  the world, trace and transport state, is the one before the call. The exception
  is Python's \<open>RuntimeError\<close>, the only exception \<open>core.py\<close> raises itself; it is what
  the spec's taxonomy names \<open>ConfigurationError\<close>. When both are \<open>None\<close> the call is
  exactly \<open>_pymargo.register_on_client(mid, rpc_name, provider_id)\<close>, the client-side
  registration; when both are given it is exactly
  \<open>_pymargo.register(mid, rpc_name, provider_id, obj, method_name)\<close>, the registration
  of the handler under \<open>provider_id\<close>.
\<close>

theorem register_argument_cases:
  "((obj = None) \<noteq> (method_name = None) \<longrightarrow>
      Engine_register pm e n obj method_name p w =
        (Inl (RuntimeError ''Both method name and object instance should be provided''), w))
   \<and> (e_mid e = Some m \<longrightarrow>
        Engine_register pm e n None None p w = invoke pm (PM_register_on_client m n p) w)
   \<and> (e_mid e = Some m \<longrightarrow>
        Engine_register pm e n (Some ob) (Some meth) p w =
          invoke pm (PM_register m n p ob meth) w)"
  by (auto simp add: Engine_register_def with_mid_def attr_mid_def)

theorem register_argument_cases_witness:
  "e_mid engine0 = Some (PyCapsule 0)
   \<and> Engine_register spec_pymargo engine0 ''echo'' (Some (ObjOther 1)) None 7 world0 =
        (Inl (RuntimeError ''Both method name and object instance should be provided''), world0)
   \<and> Engine_register spec_pymargo engine0 ''echo'' None (Some ''echo'') 7 world0 =
        (Inl (RuntimeError ''Both method name and object instance should be provided''), world0)
   \<and> fst (Engine_register spec_pymargo engine0 ''echo'' None None 0 world0) = Inr (PyInt 1)
   \<and> t_registry (w_state (snd (Engine_register spec_pymargo engine0 ''echo'' None None 0 world0)))
        = [((0, ''echo'', 0), (1, None))]
   \<and> fst (Engine_register spec_pymargo engine0 ''echo'' (Some (ObjOther 1)) (Some ''run'') 7 world0)
        = Inr (PyInt 1)
   \<and> t_registry (w_state (snd (Engine_register spec_pymargo engine0 ''echo'' (Some (ObjOther 1))
        (Some ''run'') 7 world0))) = [((0, ''echo'', 7), (1, Some (ObjOther 1, ''run'')))]"
  using register_argument_cases
          [of "Some (ObjOther 1)" None spec_pymargo engine0 "''echo''" 7 world0 "PyCapsule 0"
              "ObjOther 1" "''run''"]
        register_argument_cases
          [of None "Some ''echo''" spec_pymargo engine0 "''echo''" 7 world0 "PyCapsule 0"]
        register_argument_cases
          [of None None spec_pymargo engine0 "''echo''" 0 world0 "PyCapsule 0"]
  by (simp add: boundary_defs spec_defs fixture_defs)


subsection \<open>A failing finalize\<close>

text \<open>
  Claim C3, as the spec states it: if the transport-level finalize fails inside
  \<open>Engine.finalize()\<close>, the session is still released, the failure is only a warning
  and the caller sees no exception. The code has no \<open>try\<close> around
  \<open>_pymargo.finalize\<close>: on a transport whose finalize fails, \<open>Engine.finalize\<close> raises
  that very exception, leaves \<open>_finalized\<close> false and calls nothing else (no warning
  is logged).
\<close>

theorem finalize_failure_counterexample:
  "fst (Engine_finalize scripted engine0
          (script [Inl (MargoException ''finalize failed'')] :: (pyobj, (exn + pyval) list) world))
     = Inl (MargoException ''finalize failed'')
   \<and> \<not> e_finalized (fst (snd (Engine_finalize scripted engine0
          (script [Inl (MargoException ''finalize failed'')] :: (pyobj, (exn + pyval) list) world))))
   \<and> w_trace (snd (snd (Engine_finalize scripted engine0
          (script [Inl (MargoException ''finalize failed'')] :: (pyobj, (exn + pyval) list) world))))
     = [PM_finalize (PyCapsule 0)]"
  by (simp add: Engine_finalize_def boundary_defs fixture_defs)

text \<open>
  Claim C3, amended: if the transport-level finalize fails with an exception \<open>x\<close>
  inside \<open>Engine.finalize()\<close>, then \<open>Engine.finalize()\<close> raises \<open>x\<close> to its caller, the
  engine object is unchanged (its \<open>_finalized\<close> flag keeps its value), and the only
  call made to the transport is that \<open>finalize\<close>: nothing is logged, and whether the
  session is released is what the transport did before it failed.
\<close>

theorem finalize_failure_propagates:
  "e_mid e = Some m \<Longrightarrow> pm (PM_finalize m) (w_state w) = (Inl x, s') \<Longrightarrow>
     Engine_finalize pm e w =
       (Inl x, e, \<lparr>w_trace = w_trace w @ [PM_finalize m], w_state = s'\<rparr>)"
  by (simp add: Engine_finalize_def boundary_defs)

theorem finalize_failure_propagates_witness:
  "e_mid engine0 = Some (PyCapsule 0)
   \<and> scripted (PM_finalize (PyCapsule 0) :: pyobj call) [Inl (MargoException ''finalize failed'')]
       = (Inl (MargoException ''finalize failed''), [])
   \<and> Engine_finalize scripted engine0 (script [Inl (MargoException ''finalize failed'')])
       = (Inl (MargoException ''finalize failed''), engine0,
          \<lparr>w_trace = [PM_finalize (PyCapsule 0) :: pyobj call], w_state = []\<rparr>)"
  using finalize_failure_propagates
          [of engine0 "PyCapsule 0" scripted "script [Inl (MargoException ''finalize failed'')]"
              "MargoException ''finalize failed''" "[]"]
  by (simp add: fixture_defs)


subsection \<open>Destruction of an address\<close>

text \<open>
  Claim C7. \<open>Address.__del__\<close> releases the endpoint handle if and only if
  \<open>_need_del\<close> is true. When the flag is true, the destructor makes the call
  \<open>_pymargo.addr_free(mid, hg_addr)\<close> and nothing else: the transport is left in
  the state in which that call leaves it, the call is the one entry added to the
  trace, and the destructor fails exactly when the call does. When the flag is
  false, and so for every \<open>Address\<close> built with \<open>need_del = False\<close>, the destructor
  makes no call and leaves the world as it is. On the transport modelled from the
  spec the release can be seen: for an address of a live session whose endpoint
  reference is live, the reference is gone after the destructor when the flag is
  true and is still there when it is false.
\<close>

theorem Address_del_frees_iff_need_del:
  "w_trace (snd (Address_del pm a w)) =
     w_trace w @ (if a_need_del a then [PM_addr_free (a_mid a) (a_hg_addr a)] else [])
   \<and> Address_del pm (Address_init m h False) w = (Inr PyNone, w)
   \<and> (a_need_del a \<longrightarrow>
        w_state (snd (Address_del pm a w))
          = snd (pm (PM_addr_free (a_mid a) (a_hg_addr a)) (w_state w))
        \<and> fst (Address_del pm a w)
          = (case fst (pm (PM_addr_free (a_mid a) (a_hg_addr a)) (w_state w)) of
               Inl x \<Rightarrow> Inl x | Inr v \<Rightarrow> Inr PyNone))
   \<and> (\<not> a_need_del a \<longrightarrow> Address_del pm a w = (Inr PyNone, w))
   \<and> (a_mid a = PyCapsule n \<and> map_of (t_sessions (w_state ws)) n \<noteq> None
        \<and> endpoint_of (w_state ws) (a_hg_addr a) \<noteq> None \<longrightarrow>
        fst (Address_del spec_pymargo a ws) = Inr PyNone
        \<and> endpoint_of (w_state (snd (Address_del spec_pymargo a ws))) (a_hg_addr a)
            = (if a_need_del a then None else endpoint_of (w_state ws) (a_hg_addr a)))"
proof -
  have generic:
    "w_trace (snd (Address_del pm a w)) =
       w_trace w @ (if a_need_del a then [PM_addr_free (a_mid a) (a_hg_addr a)] else [])"
    "Address_del pm (Address_init m h False) w = (Inr PyNone, w)"
    "a_need_del a \<longrightarrow>
        w_state (snd (Address_del pm a w))
          = snd (pm (PM_addr_free (a_mid a) (a_hg_addr a)) (w_state w))
        \<and> fst (Address_del pm a w)
          = (case fst (pm (PM_addr_free (a_mid a) (a_hg_addr a)) (w_state w)) of
               Inl x \<Rightarrow> Inl x | Inr v \<Rightarrow> Inr PyNone)"
    "\<not> a_need_del a \<longrightarrow> Address_del pm a w = (Inr PyNone, w)"
    by (simp_all add: Address_del_def Address_init_def boundary_defs
          split: prod.splits sum.splits)
  have released:
    "a_mid a = PyCapsule n \<and> map_of (t_sessions (w_state ws)) n \<noteq> None
        \<and> endpoint_of (w_state ws) (a_hg_addr a) \<noteq> None \<longrightarrow>
        fst (Address_del spec_pymargo a ws) = Inr PyNone
        \<and> endpoint_of (w_state (snd (Address_del spec_pymargo a ws))) (a_hg_addr a)
            = (if a_need_del a then None else endpoint_of (w_state ws) (a_hg_addr a))"
    by (auto simp add: Address_del_def boundary_defs spec_pymargo_def spec_addr_free_def
          endpoint_of_def map_of_filter_out split: pyval.splits)
  show ?thesis
    using generic released by blast
qed

theorem Address_del_frees_iff_need_del_witness:
  "endpoint_of (w_state world2) (PyCapsule 3) = Some ''tcp://client''
   \<and> Address_del spec_pymargo \<lparr>a_mid = PyCapsule 0, a_hg_addr = PyCapsule 3, a_need_del = True\<rparr>
        world2
     = (Inr PyNone,
        \<lparr>w_trace = [PM_addr_free (PyCapsule 0) (PyCapsule 3)],
         w_state = \<lparr>t_next = 6, t_sessions = [(0, ''tcp://a'', server)], t_endpoints = [],
                    t_registry = [], t_inbound = [(5, (0, 3))],
                    t_unreachable = [''bad://'']\<rparr>\<rparr>)
   \<and> endpoint_of (w_state (snd (Address_del spec_pymargo
        \<lparr>a_mid = PyCapsule 0, a_hg_addr = PyCapsule 3, a_need_del = True\<rparr> world2)))
        (PyCapsule 3) = None
   \<and> Address_del spec_pymargo \<lparr>a_mid = PyCapsule 0, a_hg_addr = PyCapsule 3, a_need_del = False\<rparr>
        world2
     = (Inr PyNone, world2)
   \<and> endpoint_of (w_state (snd (Address_del spec_pymargo
        \<lparr>a_mid = PyCapsule 0, a_hg_addr = PyCapsule 3, a_need_del = False\<rparr> world2)))
        (PyCapsule 3) = Some ''tcp://client''"
  using Address_del_frees_iff_need_del
          [where pm = spec_pymargo and w = world2 and ws = world2 and n = 0
             and a = "\<lparr>a_mid = PyCapsule 0, a_hg_addr = PyCapsule 3, a_need_del = True\<rparr>"]
        Address_del_frees_iff_need_del
          [where pm = spec_pymargo and w = world2 and ws = world2 and n = 0
             and a = "\<lparr>a_mid = PyCapsule 0, a_hg_addr = PyCapsule 3, a_need_del = False\<rparr>"]
  by (simp add: Address_del_def boundary_defs spec_defs fixture_defs)



subsection \<open>Construction\<close>

text \<open>
  Claim C4. \<open>Engine.__init__\<close> sets \<open>_finalized = True\<close> before it calls
  \<open>_pymargo.init\<close> and sets it to \<open>False\<close> only after that call has returned. So
  whenever the constructor raises (because \<open>_pymargo.init\<close> raised, or \<open>json.dumps\<close>
  did), the object it leaves behind has \<open>_finalized\<close> true and no \<open>_mid\<close>, and
  \<open>__del__\<close> on that object does nothing: the world is the same after it, no
  \<open>finalize\<close> is called. Whenever the constructor returns, the engine is not
  finalized and has its \<open>_mid\<close> and its logger. For every construction, with the
  options given as a string or as a dictionary that \<open>json.dumps\<close> serialises: when
  \<open>_pymargo.init\<close> raises \<open>x\<close>, the constructor raises \<open>x\<close>, having made that one
  call; and when \<open>_pymargo.init\<close> returns, the constructor returns the engine with
  the session it was given. When \<open>json.dumps\<close> raises, the constructor raises that
  exception and has called nothing.
\<close>

theorem Engine_init_atomic:
  "(Engine_init pm jd addr md use_pt n_rpc opts w = (Inl x, self, w') \<longrightarrow>
      e_finalized self \<and> e_mid self = None \<and> Engine_del pm self w' = (Inr PyNone, self, w'))
   \<and> (Engine_init pm jd addr md use_pt n_rpc opts w = (Inr v, self, w') \<longrightarrow>
      \<not> e_finalized self \<and> e_mid self \<noteq> None \<and> e_logger self)
   \<and> (pm (PM_init addr md use_pt n_rpc opt) (w_state w) = (Inl x, s') \<longrightarrow>
      Engine_init pm jd addr md use_pt n_rpc (OptionsStr opt) w =
        (Inl x, \<lparr>e_finalized = True, e_mid = None, e_logger = False\<rparr>,
         \<lparr>w_trace = w_trace w @ [PM_init addr md use_pt n_rpc opt], w_state = s'\<rparr>))
   \<and> (jd d = Inr opt \<and> pm (PM_init addr md use_pt n_rpc opt) (w_state w) = (Inl x, s') \<longrightarrow>
      Engine_init pm jd addr md use_pt n_rpc (OptionsDict d) w =
        (Inl x, \<lparr>e_finalized = True, e_mid = None, e_logger = False\<rparr>,
         \<lparr>w_trace = w_trace w @ [PM_init addr md use_pt n_rpc opt], w_state = s'\<rparr>))
   \<and> (jd d = Inl y \<longrightarrow>
      Engine_init pm jd addr md use_pt n_rpc (OptionsDict d) w =
        (Inl y, \<lparr>e_finalized = True, e_mid = None, e_logger = False\<rparr>, w))
   \<and> (pm (PM_init addr md use_pt n_rpc opt) (w_state w) = (Inr mid, s') \<longrightarrow>
      Engine_init pm jd addr md use_pt n_rpc (OptionsStr opt) w =
        (Inr PyNone, \<lparr>e_finalized = False, e_mid = Some mid, e_logger = True\<rparr>,
         \<lparr>w_trace = w_trace w @ [PM_init addr md use_pt n_rpc opt], w_state = s'\<rparr>))
   \<and> (jd d = Inr opt \<and> pm (PM_init addr md use_pt n_rpc opt) (w_state w) = (Inr mid, s') \<longrightarrow>
      Engine_init pm jd addr md use_pt n_rpc (OptionsDict d) w =
        (Inr PyNone, \<lparr>e_finalized = False, e_mid = Some mid, e_logger = True\<rparr>,
         \<lparr>w_trace = w_trace w @ [PM_init addr md use_pt n_rpc opt], w_state = s'\<rparr>))"
proof -
  have raised:
    "Engine_init pm jd addr md use_pt n_rpc opts w = (Inl x, self, w') \<longrightarrow>
        e_finalized self \<and> e_mid self = None \<and> Engine_del pm self w' = (Inr PyNone, self, w')"
    by (auto simp add: Engine_init_def Engine_del_def invoke_def Let_def
             split: sum.splits prod.splits options.splits)
  have returned:
    "Engine_init pm jd addr md use_pt n_rpc opts w = (Inr v, self, w') \<longrightarrow>
        \<not> e_finalized self \<and> e_mid self \<noteq> None \<and> e_logger self"
    by (auto simp add: Engine_init_def invoke_def Let_def
             split: sum.splits prod.splits options.splits)
  have init_fails_str:
    "pm (PM_init addr md use_pt n_rpc opt) (w_state w) = (Inl x, s') \<longrightarrow>
      Engine_init pm jd addr md use_pt n_rpc (OptionsStr opt) w =
        (Inl x, \<lparr>e_finalized = True, e_mid = None, e_logger = False\<rparr>,
         \<lparr>w_trace = w_trace w @ [PM_init addr md use_pt n_rpc opt], w_state = s'\<rparr>)"
    by (simp add: Engine_init_def invoke_def Let_def)
  have init_fails_dict:
    "jd d = Inr opt \<and> pm (PM_init addr md use_pt n_rpc opt) (w_state w) = (Inl x, s') \<longrightarrow>
      Engine_init pm jd addr md use_pt n_rpc (OptionsDict d) w =
        (Inl x, \<lparr>e_finalized = True, e_mid = None, e_logger = False\<rparr>,
         \<lparr>w_trace = w_trace w @ [PM_init addr md use_pt n_rpc opt], w_state = s'\<rparr>)"
    by (simp add: Engine_init_def invoke_def Let_def)
  have dumps_fails:
    "jd d = Inl y \<longrightarrow>
      Engine_init pm jd addr md use_pt n_rpc (OptionsDict d) w =
        (Inl y, \<lparr>e_finalized = True, e_mid = None, e_logger = False\<rparr>, w)"
    by (simp add: Engine_init_def Let_def)
  have init_returns_str:
    "pm (PM_init addr md use_pt n_rpc opt) (w_state w) = (Inr mid, s') \<longrightarrow>
      Engine_init pm jd addr md use_pt n_rpc (OptionsStr opt) w =
        (Inr PyNone, \<lparr>e_finalized = False, e_mid = Some mid, e_logger = True\<rparr>,
         \<lparr>w_trace = w_trace w @ [PM_init addr md use_pt n_rpc opt], w_state = s'\<rparr>)"
    by (simp add: Engine_init_def invoke_def Let_def)
  have init_returns_dict:
    "jd d = Inr opt \<and> pm (PM_init addr md use_pt n_rpc opt) (w_state w) = (Inr mid, s') \<longrightarrow>
      Engine_init pm jd addr md use_pt n_rpc (OptionsDict d) w =
        (Inr PyNone, \<lparr>e_finalized = False, e_mid = Some mid, e_logger = True\<rparr>,
         \<lparr>w_trace = w_trace w @ [PM_init addr md use_pt n_rpc opt], w_state = s'\<rparr>)"
    by (simp add: Engine_init_def invoke_def Let_def)
  show ?thesis
    using raised returned init_fails_str init_fails_dict dumps_fails
      init_returns_str init_returns_dict
    by (intro conjI)
qed

theorem Engine_init_atomic_witness:
  "Engine_init spec_pymargo no_dumps ''bad://'' server False 0 (OptionsStr []) start
     = (Inl (MargoException ''InitializationError''),
        \<lparr>e_finalized = True, e_mid = None, e_logger = False\<rparr>,
        \<lparr>w_trace = [PM_init ''bad://'' server False 0 [] :: pyobj call], w_state = spec_start\<rparr>)
   \<and> Engine_del spec_pymargo \<lparr>e_finalized = True, e_mid = None, e_logger = False\<rparr>
        \<lparr>w_trace = [PM_init ''bad://'' server False 0 [] :: pyobj call], w_state = spec_start\<rparr>
     = (Inr PyNone, \<lparr>e_finalized = True, e_mid = None, e_logger = False\<rparr>,
        \<lparr>w_trace = [PM_init ''bad://'' server False 0 [] :: pyobj call], w_state = spec_start\<rparr>)
   \<and> Engine_init spec_pymargo braces_dumps ''bad://'' server False 0 (OptionsDict ()) start
     = (Inl (MargoException ''InitializationError''),
        \<lparr>e_finalized = True, e_mid = None, e_logger = False\<rparr>,
        \<lparr>w_trace = [PM_init ''bad://'' server False 0 ''{}'' :: pyobj call],
         w_state = spec_start\<rparr>)
   \<and> Engine_init spec_pymargo no_dumps ''tcp://a'' server False 0 (OptionsDict ())
        (start :: (pyobj, pyobj spec_state) world)
     = (Inl (TypeError ''Object is not JSON serializable''),
        \<lparr>e_finalized = True, e_mid = None, e_logger = False\<rparr>, start)
   \<and> Engine_init spec_pymargo no_dumps ''tcp://a'' server False 0 (OptionsStr []) start
     = (Inr PyNone, engine0, world0)
   \<and> \<not> e_finalized engine0 \<and> e_mid engine0 \<noteq> None \<and> e_logger engine0"
proof -
  let ?partial = "\<lparr>e_finalized = True, e_mid = None, e_logger = False\<rparr>"
  let ?x = "MargoException ''InitializationError''"
  have bad: "spec_pymargo (PM_init ''bad://'' server False 0 opt :: pyobj call) spec_start
               = (Inl ?x, spec_start)" for opt
    by (simp add: spec_defs)
  have good: "spec_pymargo (PM_init ''tcp://a'' server False 0 [] :: pyobj call) spec_start
               = (Inr (PyCapsule 0), w_state world0)"
    by (simp add: spec_defs fixture_defs)
  have st: "w_state (start :: (pyobj, pyobj spec_state) world) = spec_start"
       "w_trace (start :: (pyobj, pyobj spec_state) world) = []"
    by (simp_all add: start_def)
  have br: "braces_dumps () = Inr ''{}''" and nd: "no_dumps () = Inl (TypeError ''Object is not JSON serializable'')"
    by (simp_all add: braces_dumps_def no_dumps_def)
  note inst = Engine_init_atomic
          [where pm = spec_pymargo and md = server and use_pt = False and n_rpc = 0
             and w = "start :: (pyobj, pyobj spec_state) world" and d = "()" and mid = "PyCapsule 0"
             and y = "TypeError ''Object is not JSON serializable''"]
  have a: "Engine_init spec_pymargo no_dumps ''bad://'' server False 0 (OptionsStr []) start
     = (Inl ?x, ?partial,
        \<lparr>w_trace = [PM_init ''bad://'' server False 0 [] :: pyobj call], w_state = spec_start\<rparr>)"
    using inst [where jd = no_dumps and addr = "''bad://''" and opt = "[]" and x = ?x
                  and s' = spec_start and opts = "OptionsStr []" and self = ?partial
                  and v = PyNone and w' = start]
      bad [of "[]"]
    by (simp add: st)
  have b: "Engine_del spec_pymargo ?partial
        \<lparr>w_trace = [PM_init ''bad://'' server False 0 [] :: pyobj call], w_state = spec_start\<rparr>
     = (Inr PyNone, ?partial,
        \<lparr>w_trace = [PM_init ''bad://'' server False 0 [] :: pyobj call], w_state = spec_start\<rparr>)"
    using inst [where jd = no_dumps and addr = "''bad://''" and opt = "[]" and x = ?x
                  and s' = spec_start and opts = "OptionsStr []" and self = ?partial
                  and v = PyNone
                  and w' = "\<lparr>w_trace = [PM_init ''bad://'' server False 0 []],
                             w_state = spec_start\<rparr>"]
      a
    by simp
  have c: "Engine_init spec_pymargo braces_dumps ''bad://'' server False 0 (OptionsDict ()) start
     = (Inl ?x, ?partial,
        \<lparr>w_trace = [PM_init ''bad://'' server False 0 ''{}'' :: pyobj call],
         w_state = spec_start\<rparr>)"
    using inst [where jd = braces_dumps and addr = "''bad://''" and opt = "''{}''" and x = ?x
                  and s' = spec_start and opts = "OptionsDict ()" and self = ?partial
                  and v = PyNone and w' = start]
      bad [of "''{}''"] br
    by (simp add: st)
  have d: "Engine_init spec_pymargo no_dumps ''tcp://a'' server False 0 (OptionsDict ())
        (start :: (pyobj, pyobj spec_state) world)
     = (Inl (TypeError ''Object is not JSON serializable''), ?partial, start)"
    using inst [where jd = no_dumps and addr = "''tcp://a''" and opt = "[]" and x = ?x
                  and s' = spec_start and opts = "OptionsDict ()" and self = ?partial
                  and v = PyNone and w' = start]
      nd
    by simp
  have e: "Engine_init spec_pymargo no_dumps ''tcp://a'' server False 0 (OptionsStr []) start
     = (Inr PyNone, engine0, world0)"
    using inst [where jd = no_dumps and addr = "''tcp://a''" and opt = "[]" and x = ?x
                  and s' = "w_state world0" and opts = "OptionsStr []" and self = engine0
                  and v = PyNone and w' = world0]
      good
    by (simp add: st engine0_def world0_def)
  have f: "\<not> e_finalized engine0 \<and> e_mid engine0 \<noteq> None \<and> e_logger engine0"
    using inst [where jd = no_dumps and addr = "''tcp://a''" and opt = "[]" and x = ?x
                  and s' = "w_state world0" and opts = "OptionsStr []" and self = engine0
                  and v = PyNone and w' = world0]
      e
    by simp
  show ?thesis
    using a b c d e f by (intro conjI) simp_all
qed


subsection \<open>The finalized flag\<close>

lemma step_keeps_finalized:
  "Engine_step pm op e w = (r, e', w') \<Longrightarrow> e_finalized e \<Longrightarrow> e_finalized e'"
  by (cases op)
     (auto simp add: engine_defs boundary_defs
           split: sum.splits prod.splits option.splits if_splits)

lemma step_sets_finalized:
  "Engine_step pm op e w = (r, e', w') \<Longrightarrow> \<not> e_finalized e \<Longrightarrow> e_finalized e' \<Longrightarrow>
     op = Op_finalize \<or> op = Op_wait_for_finalize
     \<or> ((op = Op_del \<or> op = Op_exit) \<and> Engine_step pm op e w = Engine_step pm Op_finalize e w)"
  by (cases op)
     (auto simp add: engine_defs boundary_defs
           split: sum.splits prod.splits option.splits if_splits)

text \<open>
  Claim C9. The \<open>_finalized\<close> flag of an engine is false when the constructor has
  returned. No method of \<open>Engine\<close> takes it from true to false. A method that takes
  it from false to true is \<open>finalize\<close> or \<open>wait_for_finalize\<close>, or it is \<open>__del__\<close> or
  \<open>__exit__\<close>, which then do exactly what \<open>finalize\<close> does (they call it). And when
  \<open>wait_for_finalize\<close> returns, the flag is true.
\<close>

theorem finalized_flag_monotonic:
  "(Engine_init pm jd addr md use_pt n_rpc opts w0 = (Inr v, e0, w1) \<longrightarrow> \<not> e_finalized e0)
   \<and> (Engine_step pm op e w = (r, e', w') \<and> e_finalized e \<longrightarrow> e_finalized e')
   \<and> (Engine_step pm op e w = (r, e', w') \<and> \<not> e_finalized e \<and> e_finalized e' \<longrightarrow>
        op = Op_finalize \<or> op = Op_wait_for_finalize
        \<or> ((op = Op_del \<or> op = Op_exit)
            \<and> Engine_step pm op e w = Engine_step pm Op_finalize e w))
   \<and> (Engine_wait_for_finalize pm e w = (Inr v', e'', w'') \<longrightarrow> e_finalized e'')"
proof -
  have a: "Engine_init pm jd addr md use_pt n_rpc opts w0 = (Inr v, e0, w1) \<longrightarrow> \<not> e_finalized e0"
    by (auto simp add: Engine_init_def Let_def split: sum.splits prod.splits)
  have d: "Engine_wait_for_finalize pm e w = (Inr v', e'', w'') \<longrightarrow> e_finalized e''"
    by (auto simp add: Engine_wait_for_finalize_def boundary_defs
             split: sum.splits prod.splits option.splits)
  show ?thesis
    using a d step_keeps_finalized [of pm op e w r e' w']
      step_sets_finalized [of pm op e w r e' w']
    by blast
qed

theorem finalized_flag_monotonic_witness:
  "Engine_init spec_pymargo no_dumps ''tcp://a'' server False 0 (OptionsStr []) start
     = (Inr PyNone, engine0, world0)
   \<and> \<not> e_finalized engine0
   \<and> Engine_step spec_pymargo Op_exit engine0 world0 = (Inr (RVal PyNone), engine1, world1)
   \<and> Engine_step spec_pymargo Op_exit engine0 world0
       = Engine_step spec_pymargo Op_finalize engine0 world0
   \<and> e_finalized engine1
   \<and> fst (snd (Engine_step spec_pymargo Op_addr engine1 world1)) = engine1
   \<and> fst (Engine_wait_for_finalize spec_pymargo engine0 world0) = Inr PyNone
   \<and> e_finalized (fst (snd (Engine_wait_for_finalize spec_pymargo engine0 world0)))"
  using finalized_flag_monotonic
          [where pm = spec_pymargo and jd = no_dumps and addr = "''tcp://a''" and md = server
             and use_pt = False and n_rpc = 0 and opts = "OptionsStr []" and ?w0.0 = start
             and v = PyNone and ?e0.0 = engine0 and ?w1.0 = world0
             and op = Op_exit and e = engine0 and w = world0
             and r = "Inr (RVal PyNone)" and e' = engine1 and w' = world1
             and v' = PyNone
             and e'' = "fst (snd (Engine_wait_for_finalize spec_pymargo engine0 world0))"
             and w'' = "snd (snd (Engine_wait_for_finalize spec_pymargo engine0 world0))"]
        finalized_flag_monotonic
          [where pm = spec_pymargo and jd = no_dumps and addr = "''tcp://a''" and md = server
             and use_pt = False and n_rpc = 0 and opts = "OptionsStr []" and ?w0.0 = start
             and v = PyNone and ?e0.0 = engine0 and ?w1.0 = world0
             and op = Op_addr and e = engine1 and w = world1
             and r = "fst (Engine_step spec_pymargo Op_addr engine1 world1)"
             and e' = "fst (snd (Engine_step spec_pymargo Op_addr engine1 world1))"
             and w' = "snd (snd (Engine_step spec_pymargo Op_addr engine1 world1))"
             and v' = PyNone
             and e'' = "fst (snd (Engine_wait_for_finalize spec_pymargo engine0 world0))"
             and w'' = "snd (snd (Engine_wait_for_finalize spec_pymargo engine0 world0))"]
  by (simp add: Engine_init_def engine_defs boundary_defs spec_defs fixture_defs)


subsection \<open>Provider\<close>

text \<open>
  Claim C8. For the provider \<open>p\<close> made by \<open>Provider(e, i)\<close>: \<open>p.register(rpc_name,
  method_name)\<close> has the result and the effect of \<open>e.register(rpc_name, p, method_name,
  i)\<close>, and \<open>p.registered(rpc_name)\<close> those of \<open>e.registered(rpc_name, i)\<close>; after
  either call the provider is the same object with the same engine and provider id,
  which are all the attributes it has.
\<close>

theorem Provider_delegates:
  "Provider_register pm (Provider_init e i) rpc_name method_name w =
     (fst (Engine_register pm e rpc_name (Some (ObjProvider (Provider_init e i))) method_name i w),
      Provider_init e i,
      snd (Engine_register pm e rpc_name (Some (ObjProvider (Provider_init e i))) method_name i w))
   \<and> Provider_registered pm (Provider_init e i) rpc_name w =
     (fst (Engine_registered pm e rpc_name (Some i) w), Provider_init e i,
      snd (Engine_registered pm e rpc_name (Some i) w))
   \<and> Provider_get_engine (Provider_init e i) = e
   \<and> Provider_get_provider_id (Provider_init e i) = i"
  by (simp add: Provider_register_def Provider_registered_def Provider_init_def
        Provider_get_engine_def Provider_get_provider_id_def split: prod.splits)


subsection \<open>Operations on a finalized engine\<close>

lemma finalize_returns:
  "Engine_finalize pm e w0 = (Inr r, e', w) \<Longrightarrow>
     \<exists>m. e_mid e = Some m \<and> e' = e\<lparr>e_finalized := True\<rparr>"
  by (auto simp add: Engine_finalize_def boundary_defs
           split: option.splits prod.splits sum.splits)

lemma rejected_step:
  assumes m: "e_mid e = Some m" and fin: "e_finalized e"
    and rej: "\<And>c. session_of c = Some m \<Longrightarrow> fst (pm c (w_state w)) = Inl x"
  shows "fst (Engine_step pm op e w) = Inl x
         \<or> op \<in> {Op_del, Op_enter, Op_exit, Op_get_internal_mid, Op_mid, Op_logger}
         \<or> (\<exists>n obj meth p. op = Op_register n obj meth p \<and> (obj = None) \<noteq> (meth = None))"
proof -
  have rejD: "\<And>c r s'. pm c (w_state w) = (r, s') \<Longrightarrow> session_of c = Some m \<Longrightarrow> r = Inl x"
    using rej by (metis fst_conv)
  show ?thesis
    using m fin
    by (cases op)
       (auto simp add: engine_defs boundary_defs
             split: sum.splits prod.splits option.splits dest: rejD)
qed

text \<open>
  Claim C2, as the spec states it: once \<open>finalize()\<close> has returned, every further
  non-destructive operation on the engine fails with a \<open>LifecycleError\<close>. No method
  of \<open>Engine\<close> reads \<open>_finalized\<close> except \<open>__del__\<close> and \<open>__exit__\<close>. Even on the
  transport that rejects every call on a released session, a finalized engine
  answers \<open>register\<close> with exactly one of \<open>obj\<close> and \<open>method_name\<close> by the
  \<open>RuntimeError\<close> about its arguments, without a call to the transport, and \<open>mid\<close>
  and \<open>__enter__\<close> return normally.
\<close>

theorem finalized_engine_counterexample:
  "Engine_finalize spec_pymargo engine0 world0 = (Inr PyNone, engine1, world1)
   \<and> Engine_step spec_pymargo (Op_register ''echo'' (Some (ObjOther 1)) None 0) engine1 world1
       = (Inl (RuntimeError ''Both method name and object instance should be provided''),
          engine1, world1)
   \<and> Engine_step spec_pymargo Op_mid engine1 world1 = (Inr (RVal (PyCapsule 0)), engine1, world1)
   \<and> Engine_step spec_pymargo Op_enter engine1 world1 = (Inr (REngine engine1), engine1, world1)"
  by (simp add: Engine_finalize_world0 Engine_register_def Engine_mid_def Engine_enter_def
        same_self_def attr_mid_def engine1_def)

text \<open>
  Claim C2, amended: the engine checks nothing itself. Once \<open>finalize()\<close> has
  returned, every operation that calls the transport fails with the error \<open>x\<close> with
  which the transport rejects the calls that name the released session (a lifecycle
  error where the transport raises one): \<open>register\<close> with both or neither of \<open>obj\<close>
  and \<open>method_name\<close>, \<open>registered\<close>, \<open>lookup\<close>, \<open>addr\<close>, \<open>create_handle\<close>, \<open>create_bulk\<close>,
  \<open>transfer\<close>, \<open>on_finalize\<close> and the others, \<open>finalize\<close> and \<open>wait_for_finalize\<close>
  included. The operations that do not are: \<open>register\<close> with exactly one of \<open>obj\<close>
  and \<open>method_name\<close>, which raises \<open>RuntimeError\<close> and leaves the world as it is;
  \<open>mid\<close>, \<open>get_internal_mid\<close> and \<open>__enter__\<close>, which return normally; \<open>__del__\<close> and
  \<open>__exit__\<close>, which do nothing; and \<open>logger\<close>, which calls nothing.
\<close>

theorem finalized_engine_forwards:
  assumes "Engine_finalize pm e w0 = (Inr r, e', w)"
    and "\<forall>c. session_of c = e_mid e' \<longrightarrow> fst (pm c (w_state w)) = Inl x"
  shows "(fst (Engine_step pm op e' w) = Inl x
          \<or> op \<in> {Op_del, Op_enter, Op_exit, Op_get_internal_mid, Op_mid, Op_logger}
          \<or> (\<exists>n obj meth p. op = Op_register n obj meth p \<and> (obj = None) \<noteq> (meth = None)))
       \<and> ((ob = None) \<noteq> (mn = None) \<longrightarrow>
            Engine_step pm (Op_register n ob mn p) e' w =
              (Inl (RuntimeError ''Both method name and object instance should be provided''),
               e', w))
       \<and> Engine_step pm Op_mid e' w = (Inr (RVal (the (e_mid e'))), e', w)
       \<and> Engine_step pm Op_get_internal_mid e' w = (Inr (RVal (the (e_mid e'))), e', w)
       \<and> Engine_step pm Op_enter e' w = (Inr (REngine e'), e', w)
       \<and> Engine_step pm Op_del e' w = (Inr (RVal PyNone), e', w)
       \<and> Engine_step pm Op_exit e' w = (Inr (RVal PyNone), e', w)"
proof -
  from assms(1) obtain m where m: "e_mid e = Some m" and e': "e' = e\<lparr>e_finalized := True\<rparr>"
    using finalize_returns by blast
  have m': "e_mid e' = Some m" and fin: "e_finalized e'"
    using m e' by simp_all
  have rej: "\<And>c. session_of c = Some m \<Longrightarrow> fst (pm c (w_state w)) = Inl x"
    using assms(2) m' by simp
  have a: "fst (Engine_step pm op e' w) = Inl x
          \<or> op \<in> {Op_del, Op_enter, Op_exit, Op_get_internal_mid, Op_mid, Op_logger}
          \<or> (\<exists>n obj meth p. op = Op_register n obj meth p \<and> (obj = None) \<noteq> (meth = None))"
    by (rule rejected_step [OF m' fin]) (rule rej)
  have b: "(ob = None) \<noteq> (mn = None) \<longrightarrow>
            Engine_step pm (Op_register n ob mn p) e' w =
              (Inl (RuntimeError ''Both method name and object instance should be provided''),
               e', w)"
    by (auto simp add: Engine_register_def same_self_def)
  have c: "Engine_step pm Op_mid e' w = (Inr (RVal (the (e_mid e'))), e', w)"
    "Engine_step pm Op_get_internal_mid e' w = (Inr (RVal (the (e_mid e'))), e', w)"
    "Engine_step pm Op_enter e' w = (Inr (REngine e'), e', w)"
    "Engine_step pm Op_del e' w = (Inr (RVal PyNone), e', w)"
    "Engine_step pm Op_exit e' w = (Inr (RVal PyNone), e', w)"
    using m' fin by (simp_all add: engine_defs boundary_defs)
  show ?thesis
    using a b c by blast
qed

theorem finalized_engine_forwards_witness:
  "Engine_finalize spec_pymargo engine0 world0 = (Inr PyNone, engine1, world1)
   \<and> fst (Engine_step spec_pymargo (Op_lookup ''tcp://b'') engine1 world1)
       = Inl (MargoException ''LifecycleError'')
   \<and> fst (Engine_step spec_pymargo (Op_register ''echo'' (Some (ObjOther 1)) None 7) engine1 world1)
       = Inl (RuntimeError ''Both method name and object instance should be provided'')
   \<and> fst (Engine_step spec_pymargo Op_get_internal_mid engine1 world1) = Inr (RVal (PyCapsule 0))"
proof -
  have h1: "Engine_finalize spec_pymargo engine0 world0 = (Inr PyNone, engine1, world1)"
    by (rule Engine_finalize_world0)
  have h2: "\<forall>c::pyobj call. session_of c = e_mid engine1 \<longrightarrow>
              fst (spec_pymargo c (w_state world1)) = Inl (MargoException ''LifecycleError'')"
    by (simp add: spec_pymargo_def engine1_def world1_def)
  show ?thesis
    using h1 finalized_engine_forwards
               [OF h1 h2, of "Op_lookup ''tcp://b''" "Some (ObjOther 1)" None "''echo''" 7]
    by (simp add: engine1_def)
qed


subsection \<open>The sender's address of an inbound handle\<close>

text \<open>
  Claim C10. \<open>h.get_addr()\<close> returns an address exactly when the three calls
  \<open>h._get_mid()\<close>, \<open>h._get_hg_addr()\<close> and \<open>_pymargo.addr_dup(mid, addr)\<close> succeed;
  the address returned then holds the handle that \<open>addr_dup\<close> returned for the
  borrowed sender endpoint, not the borrowed handle, and its \<open>_need_del\<close> is true.
  Those three calls are all that \<open>get_addr\<close> makes: the temporary borrowed
  \<open>Address\<close> is destroyed without an \<open>addr_free\<close>. The destructor of the returned
  address frees the duplicate.
\<close>

theorem get_addr_returns_owned_duplicate:
  "(Handler_get_Address pm h w = (Inr a, w') \<longleftrightarrow>
      (\<exists>m b w1 w2.
         invoke pm (PM_Handle_get_mid h) w = (Inr m, w1)
         \<and> invoke pm (PM_Handle_get_hg_addr h) w1 = (Inr b, w2)
         \<and> invoke pm (PM_addr_dup m b) w2 = (Inr (a_hg_addr a), w')
         \<and> a_mid a = m \<and> a_need_del a
         \<and> w_trace w' = w_trace w @ [PM_Handle_get_mid h, PM_Handle_get_hg_addr h, PM_addr_dup m b]))
   \<and> (a_need_del a \<longrightarrow>
        w_trace (snd (Address_del pm a w')) = w_trace w' @ [PM_addr_free (a_mid a) (a_hg_addr a)])"
  by (auto simp add: address_defs invoke_def stmt_def Let_def
           split: sum.splits prod.splits)

theorem get_addr_returns_owned_duplicate_witness:
  "fst (Handler_get_Address spec_pymargo (PyCapsule 5) world2)
     = Inr \<lparr>a_mid = PyCapsule 0, a_hg_addr = PyCapsule 6, a_need_del = True\<rparr>
   \<and> w_trace (snd (Handler_get_Address spec_pymargo (PyCapsule 5) world2))
     = [PM_Handle_get_mid (PyCapsule 5), PM_Handle_get_hg_addr (PyCapsule 5),
        PM_addr_dup (PyCapsule 0) (PyCapsule 3)]
   \<and> t_endpoints (w_state (snd (Handler_get_Address spec_pymargo (PyCapsule 5) world2)))
     = [(6, ''tcp://client''), (3, ''tcp://client'')]
   \<and> w_trace (snd (Address_del spec_pymargo
        \<lparr>a_mid = PyCapsule 0, a_hg_addr = PyCapsule 6, a_need_del = True\<rparr>
        (snd (Handler_get_Address spec_pymargo (PyCapsule 5) world2))))
     = [PM_Handle_get_mid (PyCapsule 5), PM_Handle_get_hg_addr (PyCapsule 5),
        PM_addr_dup (PyCapsule 0) (PyCapsule 3), PM_addr_free (PyCapsule 0) (PyCapsule 6)]
   \<and> t_endpoints (w_state (snd (Address_del spec_pymargo
        \<lparr>a_mid = PyCapsule 0, a_hg_addr = PyCapsule 6, a_need_del = True\<rparr>
        (snd (Handler_get_Address spec_pymargo (PyCapsule 5) world2)))))
     = [(3, ''tcp://client'')]"
  using get_addr_returns_owned_duplicate
          [where pm = spec_pymargo and h = "PyCapsule 5" and w = world2
             and a = "\<lparr>a_mid = PyCapsule 0, a_hg_addr = PyCapsule 6, a_need_del = True\<rparr>"
             and w' = "snd (Handler_get_Address spec_pymargo (PyCapsule 5) world2)"]
  by (simp add: address_defs boundary_defs spec_defs fixture_defs)


subsection \<open>Copies of an address\<close>

lemma obtained_address:
  assumes "Engine_lookup spec_pymargo e straddr w = (Inr a, w1)
           \<or> Engine_addr spec_pymargo e w = (Inr a, w1)"
  shows "\<exists>n ep. a = Address_init (PyCapsule n) (PyCapsule (t_next (w_state w))) True
            \<and> map_of (t_sessions (w_state w1)) n \<noteq> None
            \<and> t_next (w_state w1) = Suc (t_next (w_state w))
            \<and> t_endpoints (w_state w1) = (t_next (w_state w), ep) # t_endpoints (w_state w)"
  using assms
  by (auto simp add: Engine_lookup_def Engine_addr_def boundary_defs spec_pymargo_def
        spec_lookup_def spec_addr_self_def new_reference_def
        split: option.splits prod.splits sum.splits pyval.splits if_splits)

text \<open>
  Claim C5, on the transport modelled from the spec. For an address \<open>a\<close> that
  \<open>Engine.lookup\<close> or \<open>Engine.addr\<close> has returned, \<open>a.copy()\<close> returns an address \<open>c\<close>
  with \<open>_need_del\<close> true that holds an endpoint reference of its own, and \<open>c == a\<close>
  is true. The two are released independently: destroying \<open>c\<close> succeeds, releases
  the reference of \<open>c\<close> and leaves that of \<open>a\<close> live; destroying \<open>a\<close> instead succeeds
  and leaves that of \<open>c\<close> live.
\<close>

theorem copy_equal_and_owned:
  assumes "Engine_lookup spec_pymargo e straddr w = (Inr a, w1)
           \<or> Engine_addr spec_pymargo e w = (Inr a, w1)"
  shows "\<exists>c w2. Address_copy spec_pymargo a w1 = (Inr c, w2)
           \<and> a_need_del c
           \<and> a_hg_addr c \<noteq> a_hg_addr a
           \<and> fst (Address_eq spec_pymargo c a w2) = Inr (PyBool True)
           \<and> fst (Address_del spec_pymargo c w2) = Inr PyNone
           \<and> endpoint_of (w_state (snd (Address_del spec_pymargo c w2))) (a_hg_addr c) = None
           \<and> endpoint_of (w_state (snd (Address_del spec_pymargo c w2))) (a_hg_addr a) \<noteq> None
           \<and> fst (Address_del spec_pymargo a w2) = Inr PyNone
           \<and> endpoint_of (w_state (snd (Address_del spec_pymargo a w2))) (a_hg_addr c) \<noteq> None"
proof -
  from obtained_address [OF assms] obtain n ep where
    a: "a = Address_init (PyCapsule n) (PyCapsule (t_next (w_state w))) True"
    and live: "map_of (t_sessions (w_state w1)) n \<noteq> None"
    and nxt: "t_next (w_state w1) = Suc (t_next (w_state w))"
    and eps: "t_endpoints (w_state w1) = (t_next (w_state w), ep) # t_endpoints (w_state w)"
    by blast
  show ?thesis
    using live
    by (simp add: a nxt eps address_defs invoke_def stmt_def spec_pymargo_def spec_addr_dup_def
          spec_addr_cmp_def spec_addr_free_def endpoint_of_def new_reference_def
          map_of_filter_out map_of_filter_other)
qed

theorem copy_equal_and_owned_witness:
  "Engine_lookup spec_pymargo engine0 ''tcp://b'' world0
     = (Inr \<lparr>a_mid = PyCapsule 0, a_hg_addr = PyCapsule 1, a_need_del = True\<rparr>,
        snd (Engine_lookup spec_pymargo engine0 ''tcp://b'' world0))
   \<and> fst (Address_copy spec_pymargo
        \<lparr>a_mid = PyCapsule 0, a_hg_addr = PyCapsule 1, a_need_del = True\<rparr>
        (snd (Engine_lookup spec_pymargo engine0 ''tcp://b'' world0)))
     = Inr \<lparr>a_mid = PyCapsule 0, a_hg_addr = PyCapsule 2, a_need_del = True\<rparr>
   \<and> fst (Address_eq spec_pymargo
        \<lparr>a_mid = PyCapsule 0, a_hg_addr = PyCapsule 2, a_need_del = True\<rparr>
        \<lparr>a_mid = PyCapsule 0, a_hg_addr = PyCapsule 1, a_need_del = True\<rparr>
        (snd (Address_copy spec_pymargo
           \<lparr>a_mid = PyCapsule 0, a_hg_addr = PyCapsule 1, a_need_del = True\<rparr>
           (snd (Engine_lookup spec_pymargo engine0 ''tcp://b'' world0)))))
     = Inr (PyBool True)"
proof -
  have h: "Engine_lookup spec_pymargo engine0 ''tcp://b'' world0
     = (Inr \<lparr>a_mid = PyCapsule 0, a_hg_addr = PyCapsule 1, a_need_del = True\<rparr>,
        snd (Engine_lookup spec_pymargo engine0 ''tcp://b'' world0))"
    by (simp add: Engine_lookup_def address_defs boundary_defs spec_defs fixture_defs)
  show ?thesis
    using h copy_equal_and_owned [OF disjI1 [OF h]]
    by (auto simp add: Engine_lookup_def address_defs boundary_defs spec_defs fixture_defs)
qed


subsection \<open>Registration and provider ids\<close>

text \<open>
  Claim C6, on the transport modelled from the spec. After
  \<open>register(name, target, method, provider_id = P)\<close> has returned an identifier,
  \<open>registered(name, P)\<close> returns that identifier, which is not none, and for
  \<open>Q \<noteq> P\<close>, \<open>registered(name, Q)\<close> returns none. The claim lets the same name be
  registered under several provider ids, so its \<open>Q\<close> is a provider id under which
  the name is not registered: \<open>registered(name, Q)\<close> is none before the
  registration under \<open>P\<close>, and the registration under \<open>P\<close> does not make the name
  visible there. More generally the registration under \<open>P\<close> leaves
  \<open>registered(name, Q)\<close> as it was. The identifier is determined by the pair:
  registering the name under \<open>P\<close> again, with any handler, returns the same
  identifier.
\<close>

theorem registration_scoped_by_provider:
  assumes "Engine_register spec_pymargo e name (Some target) (Some method) P w = (Inr i, w1)"
  shows "fst (Engine_registered spec_pymargo e name (Some P) w1) = Inr i
         \<and> i \<noteq> PyNone
         \<and> (Q \<noteq> P \<and> fst (Engine_registered spec_pymargo e name (Some Q) w) = Inr PyNone \<longrightarrow>
              fst (Engine_registered spec_pymargo e name (Some Q) w1) = Inr PyNone)
         \<and> (Q \<noteq> P \<longrightarrow>
              fst (Engine_registered spec_pymargo e name (Some Q) w1)
                = fst (Engine_registered spec_pymargo e name (Some Q) w))
         \<and> fst (Engine_register spec_pymargo e name (Some target') (Some method') P w1) = Inr i"
  using assms
  by (auto simp add: Engine_register_def Engine_registered_def boundary_defs spec_pymargo_def
        spec_register_def spec_registered_def
        split: option.splits prod.splits sum.splits pyval.splits if_splits)

theorem registration_scoped_by_provider_witness:
  "Engine_register spec_pymargo engine0 ''echo'' (Some (ObjOther 1)) (Some ''run'') 7 world0
     = (Inr (PyInt 1),
        snd (Engine_register spec_pymargo engine0 ''echo'' (Some (ObjOther 1)) (Some ''run'') 7
               world0))
   \<and> fst (Engine_registered spec_pymargo engine0 ''echo'' (Some 7)
        (snd (Engine_register spec_pymargo engine0 ''echo'' (Some (ObjOther 1)) (Some ''run'') 7
                world0)))
     = Inr (PyInt 1)
   \<and> fst (Engine_registered spec_pymargo engine0 ''echo'' (Some 8) world0) = Inr PyNone
   \<and> fst (Engine_registered spec_pymargo engine0 ''echo'' (Some 8)
        (snd (Engine_register spec_pymargo engine0 ''echo'' (Some (ObjOther 1)) (Some ''run'') 7
                world0)))
     = Inr PyNone
   \<and> fst (Engine_register spec_pymargo engine0 ''echo'' (Some (ObjOther 2)) (Some ''walk'') 7
        (snd (Engine_register spec_pymargo engine0 ''echo'' (Some (ObjOther 1)) (Some ''run'') 7
                world0)))
     = Inr (PyInt 1)"
proof -
  have h: "Engine_register spec_pymargo engine0 ''echo'' (Some (ObjOther 1)) (Some ''run'') 7 world0
     = (Inr (PyInt 1),
        snd (Engine_register spec_pymargo engine0 ''echo'' (Some (ObjOther 1)) (Some ''run'') 7
               world0))"
    by (simp add: Engine_register_def boundary_defs spec_defs fixture_defs)
  have q: "fst (Engine_registered spec_pymargo engine0 ''echo'' (Some 8) world0) = Inr PyNone"
    by (simp add: Engine_registered_def boundary_defs spec_defs fixture_defs)
  show ?thesis
    using h q registration_scoped_by_provider [OF h, of 8 "ObjOther 2" "''walk''"]
    by simp
qed

end
